theory Spec2Isabelle
  imports Complex_Main "HOL-Library.Sublist"
begin

section \<open>Python values and exceptions\<close>

text \<open>
  The exceptions the modelled functions of \<^verbatim>\<open>utils/alignment.py\<close> can raise.
  \<open>OSError\<close> stands for every failure of the file system (a missing file,
  an unreadable one), \<open>CalledProcessError\<close> for a non-zero exit of an external tool
  run with \<^verbatim>\<open>check=True\<close>.
\<close>

datatype error =
    AssertionError
  | IndexError
  | ValueError
  | ZeroDivisionError
  | StopIteration
  | OSError
  | CalledProcessError

text \<open>Sequencing of fallible steps: the first exception ends the computation.\<close>

definition bind :: "error + 'a \<Rightarrow> ('a \<Rightarrow> error + 'b) \<Rightarrow> error + 'b" where
  "bind m f = (case m of Inl e \<Rightarrow> Inl e | Inr v \<Rightarrow> f v)"

text \<open>
  The subscript \<^verbatim>\<open>xs[i]\<close> of a list or a string. From \<open>0\<close> up to the length it
  reads from the front, from \<open>-1\<close> down to minus the length from the back, and any
  other index raises \<^verbatim>\<open>IndexError\<close>.
\<close>

definition getitem :: "'a list \<Rightarrow> int \<Rightarrow> error + 'a" where
  "getitem xs i =
     (if 0 \<le> i \<and> i < int (length xs) then Inr (xs ! nat i)
      else if i < 0 \<and> - int (length xs) \<le> i then Inr (xs ! nat (int (length xs) + i))
      else Inl IndexError)"

text \<open>\<^verbatim>\<open>np.unique\<close> of a one-dimensional integer array: the sorted distinct values.\<close>

definition np_unique :: "int list \<Rightarrow> int list" where
  "np_unique xs = sort (remdups xs)"

section \<open>Python strings and paths\<close>

text \<open>\<^verbatim>\<open>sub in s\<close> for strings: \<open>sub\<close> occurs in \<open>s\<close> as a contiguous substring.\<close>

fun contains :: "string \<Rightarrow> string \<Rightarrow> bool" where
  "contains sub [] = (sub = [])"
| "contains sub (c # cs) = (prefix sub (c # cs) \<or> contains sub cs)"

text \<open>
  \<^verbatim>\<open>s.split(sep)\<close> for a non-empty separator: the pieces between the occurrences of
  \<open>sep\<close>, found from left to right without overlap. \<open>cur\<close> is the piece being read.
  Every separator in the source is a non-empty literal.
\<close>

function split_from :: "string \<Rightarrow> string \<Rightarrow> string \<Rightarrow> string list" where
  "split_from sep cur [] = [cur]"
| "split_from sep cur (c # cs) =
     (if sep \<noteq> [] \<and> prefix sep (c # cs)
      then cur # split_from sep [] (drop (length sep) (c # cs))
      else split_from sep (cur @ [c]) cs)"
  by pat_completeness auto
termination
  by (relation "measure (\<lambda>(sep, cur, s). length s)") auto

definition py_split :: "string \<Rightarrow> string \<Rightarrow> string list" where
  "py_split s sep = split_from sep [] s"

text \<open>\<^verbatim>\<open>s.replace(old, new)\<close> for a non-empty \<open>old\<close>.\<close>

function py_replace :: "string \<Rightarrow> string \<Rightarrow> string \<Rightarrow> string" where
  "py_replace [] old new = []"
| "py_replace (c # cs) old new =
     (if old \<noteq> [] \<and> prefix old (c # cs)
      then new @ py_replace (drop (length old) (c # cs)) old new
      else c # py_replace cs old new)"
  by pat_completeness auto
termination
  by (relation "measure (\<lambda>(s, old, new). length s)") auto

text \<open>\<^verbatim>\<open>sep.join(parts)\<close>\<close>

fun py_join :: "string \<Rightarrow> string list \<Rightarrow> string" where
  "py_join sep [] = []"
| "py_join sep [x] = x"
| "py_join sep (x # y # ys) = x @ sep @ py_join sep (y # ys)"

text \<open>\<^verbatim>\<open>str(n)\<close> of an integer: its decimal digits, with a minus sign when negative.\<close>

definition digit_char :: "nat \<Rightarrow> char" where
  "digit_char d = ''0123456789'' ! d"

fun str_nat :: "nat \<Rightarrow> string" where
  "str_nat n = (if n < 10 then [digit_char n] else str_nat (n div 10) @ [digit_char (n mod 10)])"

declare str_nat.simps [simp del]

definition str_int :: "int \<Rightarrow> string" where
  "str_int i = (if i < 0 then CHR ''-'' # str_nat (nat (- i)) else str_nat (nat i))"

text \<open>\<^verbatim>\<open>os.path.join\<close> on a POSIX system.\<close>

definition path_join2 :: "string \<Rightarrow> string \<Rightarrow> string" where
  "path_join2 a b =
     (if prefix ''/'' b then b
      else if a = [] \<or> suffix ''/'' a then a @ b
      else a @ ''/'' @ b)"

definition os_path_join :: "string \<Rightarrow> string list \<Rightarrow> string" where
  "os_path_join a ps = foldl path_join2 a ps"

text \<open>
  \<^verbatim>\<open>df.drop_duplicates(subset=...)\<close>: the first row of every key is kept, in the order
  of the table.
\<close>

fun drop_duplicates :: "('r \<Rightarrow> 'k) \<Rightarrow> 'r list \<Rightarrow> 'r list" where
  "drop_duplicates key [] = []"
| "drop_duplicates key (r # rs) = r # drop_duplicates key (filter (\<lambda>x. key x \<noteq> key r) rs)"

text \<open>\<^verbatim>\<open>pd.concat(frames)\<close>: raises \<^verbatim>\<open>ValueError\<close> on an empty list of frames.\<close>

definition pd_concat :: "'r list list \<Rightarrow> error + 'r list" where
  "pd_concat frames = (if frames = [] then Inl ValueError else Inr (concat frames))"

section \<open>The pseudo-sequence of one aligned record\<close>

text \<open>
  \<^verbatim>\<open>filtered_seq = "".join(record.seq[i] for i in mhc_position if i < len(record.seq))\<close>
\<close>

fun filtered_seq :: "string \<Rightarrow> int list \<Rightarrow> error + string" where
  "filtered_seq s [] = Inr []"
| "filtered_seq s (i # is) =
     (if i < int (length s)
      then bind (getitem s i) (\<lambda>c. bind (filtered_seq s is) (\<lambda>cs. Inr (c # cs)))
      else filtered_seq s is)"

section \<open>Python floats\<close>

text \<open>
  A Python \<^verbatim>\<open>float\<close> is an IEEE 754 binary64 number. A finite value is modelled as
  a pair \<open>(m, e)\<close> of integers that stands for \<open>m \<sqdot> 2\<^sup>e\<close>, and every arithmetic
  operation as the exact operation followed by rounding to the nearest value with a
  significand of 53 bits, ties to the even significand. The model is exact for results in
  the normal range (magnitudes between \<open>2\<^sup>-\<^sup>1\<^sup>0\<^sup>2\<^sup>2\<close> and \<open>2\<^sup>1\<^sup>0\<^sup>2\<^sup>4\<close>), which holds every
  quotient of two string lengths and its product with 100.
\<close>

type_synonym py_float = "int \<times> int"

text \<open>The exponent of the leading bit of a positive integer.\<close>

function log2floor :: "int \<Rightarrow> int" where
  "log2floor n = (if n < 2 then 0 else 1 + log2floor (n div 2))"
  by pat_completeness auto
termination
  by (relation "measure nat") auto

declare log2floor.simps [simp del]

text \<open>\<open>scale_le d k a\<close> is \<open>d \<sqdot> 2\<^sup>k \<le> a\<close>, in integers.\<close>

definition scale_le :: "int \<Rightarrow> int \<Rightarrow> int \<Rightarrow> bool" where
  "scale_le d k a = (if 0 \<le> k then d * 2 ^ nat k \<le> a else d \<le> a * 2 ^ nat (- k))"

text \<open>
  The binary64 value nearest to \<open>n / d\<close>, for \<open>d > 0\<close>: \<open>k\<close> is the exponent with
  \<open>2\<^sup>k \<le> |n| / d < 2\<^sup>k\<^sup>+\<^sup>1\<close>, the significand is \<open>|n| / (d \<sqdot> 2\<^sup>k\<^sup>-\<^sup>5\<^sup>2)\<close> rounded to an
  integer, half-way cases to the even one.
\<close>

definition round_ratio :: "int \<Rightarrow> int \<Rightarrow> py_float" where
  "round_ratio n d =
     (if n = 0 then (0, 0)
      else
        let a = \<bar>n\<bar>;
            k0 = log2floor a - log2floor d;
            k = (if scale_le d k0 a then k0 else k0 - 1);
            e = k - 52;
            N = (if e < 0 then a * 2 ^ nat (- e) else a);
            D = (if e < 0 then d else d * 2 ^ nat e);
            q = N div D;
            r = N mod D;
            m = (if 2 * r < D then q else if D < 2 * r then q + 1
                 else if even q then q else q + 1)
        in (sgn n * m, e))"

text \<open>\<^verbatim>\<open>a / b\<close> on two non-negative integers, correctly rounded.\<close>

definition int_truediv :: "nat \<Rightarrow> nat \<Rightarrow> error + py_float" where
  "int_truediv a b = (if b = 0 then Inl ZeroDivisionError else Inr (round_ratio (int a) (int b)))"

text \<open>\<^verbatim>\<open>x * n\<close> for a float and an integer that is a float exactly.\<close>

definition float_mul_int :: "py_float \<Rightarrow> int \<Rightarrow> py_float" where
  "float_mul_int x n =
     (let M = fst x * n; E = snd x
      in if 0 \<le> E then round_ratio (M * 2 ^ nat E) 1 else round_ratio M (2 ^ nat (- E)))"

text \<open>\<^verbatim>\<open>x >= t\<close> for a float and an integer: Python compares the exact values.\<close>

definition float_ge_int :: "py_float \<Rightarrow> int \<Rightarrow> bool" where
  "float_ge_int x t =
     (if 0 \<le> snd x then t \<le> fst x * 2 ^ nat (snd x) else t * 2 ^ nat (- snd x) \<le> fst x)"

section \<open>The alignment-and-filter stage \<^verbatim>\<open>filter_mafft_alignment\<close>\<close>

record seq_record =
  rec_id :: string
  rec_description :: string
  rec_seq :: string

text \<open>
  \<^verbatim>\<open>compute_coverage\<close>, the closure over the length of the reference sequence:
  \<^verbatim>\<open>aligned_length = sum(1 for res in query_seq if res != "-")\<close> and
  \<^verbatim>\<open>return (aligned_length / ref_seq_length) * 100\<close>.
\<close>

definition compute_coverage :: "nat \<Rightarrow> string \<Rightarrow> error + py_float" where
  "compute_coverage ref_seq_length query_seq =
     (let aligned_length = length (filter (\<lambda>res. res \<noteq> CHR ''-'') query_seq) in
      bind (int_truediv aligned_length ref_seq_length) (\<lambda>ratio.
        Inr (float_mul_int ratio 100)))"

text \<open>
  The loop over the aligned records: the record with the identifier of the reference is
  appended as it is; another record is appended, with \<^verbatim>\<open>-\<close> and \<^verbatim>\<open>X\<close> removed from
  its sequence, when its coverage reaches the threshold.
\<close>

fun filter_loop :: "string \<Rightarrow> nat \<Rightarrow> int \<Rightarrow> seq_record list \<Rightarrow> error + seq_record list" where
  "filter_loop ref_seq_id ref_seq_length coverage_threshold [] = Inr []"
| "filter_loop ref_seq_id ref_seq_length coverage_threshold (r # rs) =
     (if rec_id r = ref_seq_id then
        bind (filter_loop ref_seq_id ref_seq_length coverage_threshold rs) (\<lambda>kept. Inr (r # kept))
      else
        bind (compute_coverage ref_seq_length (rec_seq r)) (\<lambda>coverage.
        bind (filter_loop ref_seq_id ref_seq_length coverage_threshold rs) (\<lambda>kept.
          if float_ge_int coverage coverage_threshold
          then Inr (r\<lparr>rec_seq := py_replace (py_replace (rec_seq r) ''-'' []) ''X'' []\<rparr> # kept)
          else Inr kept)))"

text \<open>
  \<open>aligned\<close> is the outcome of running the aligner on the query and reference files and
  of reading the alignment it wrote; \<open>reference\<close> is the outcome of parsing the reference
  file, whose first record is taken with \<^verbatim>\<open>next\<close>. The result is the list of records
  written to the filtered output and the two counts returned.
\<close>

definition filter_mafft_alignment ::
    "(error + seq_record list) \<Rightarrow> (error + seq_record list) \<Rightarrow> int
       \<Rightarrow> error + (seq_record list \<times> nat \<times> nat)" where
  "filter_mafft_alignment aligned reference coverage_threshold =
     bind aligned (\<lambda>alignment.
     let num_records_init = length alignment in
     bind reference (\<lambda>ref_records.
     bind (case ref_records of [] \<Rightarrow> Inl StopIteration | r # _ \<Rightarrow> Inr r) (\<lambda>ref_seq_record.
     let ref_seq_id = rec_id ref_seq_record;
         ref_seq_length = length (rec_seq ref_seq_record) in
     bind (filter_loop ref_seq_id ref_seq_length coverage_threshold alignment) (\<lambda>filtered_sequences.
       Inr (filtered_sequences, num_records_init, length filtered_sequences)))))"

section \<open>The chain-pairing stage \<^verbatim>\<open>mhc2_cluster_combination_seqs\<close>\<close>

definition SPECIES :: "string list" where
  "SPECIES = [''homo'', ''SLA'', ''Patr'', ''Mamu'', ''BOLA'', ''DLA'']"

text \<open>The gene-pairing table of a species, in the order of the dictionary.\<close>

definition DICT :: "string \<Rightarrow> (string \<times> string) list" where
  "DICT species =
     (if species = ''homo''
      then [(''DMA'', ''DMB''), (''DOA'', ''DOB''), (''DPA1'', ''DPB1''), (''DQA1'', ''DQB1''),
            (''DRA'', ''DRB1-DRB3-DRB4-DRB5'')]
      else [(''DMA'', ''DMB''), (''DOA'', ''DOB''), (''DPA'', ''DPB''), (''DQA'', ''DQB''),
            (''DRA'', ''DRB'')])"

text \<open>\<^verbatim>\<open>[i for i in files if gene in i and species in i]\<close>\<close>

definition matching :: "string list \<Rightarrow> string \<Rightarrow> string \<Rightarrow> string list" where
  "matching files gene species = filter (\<lambda>i. contains gene i \<and> contains species i) files"

text \<open>The two lines written for every pair of an alpha and a beta record.\<close>

definition pair_lines :: "seq_record list \<Rightarrow> seq_record list \<Rightarrow> string list" where
  "pair_lines alpha_rec beta_rec =
     concat (map (\<lambda>rec_a. concat (map (\<lambda>rec_b.
       [''>'' @ rec_description rec_a @ '';;'' @ rec_description rec_b,
        rec_seq rec_a @ ''/'' @ rec_seq rec_b]) beta_rec)) alpha_rec)"

text \<open>
  What the stage does outside: listing the directory of the cluster representatives,
  creating the output directory (\<^verbatim>\<open>os.makedirs(out_dir, exist_ok=True)\<close>), opening an
  output file for writing, and reading the records of a FASTA file. Each can fail.
\<close>

record pairing_fs =
  fs_listdir :: "string \<Rightarrow> error + string list"
  fs_makedirs :: "string \<Rightarrow> error + unit"
  fs_open_w :: "string \<Rightarrow> error + unit"
  fs_parse :: "string \<Rightarrow> error + seq_record list"

text \<open>
  The body of \<^verbatim>\<open>with open(...) as f\<close> (lines 269 to 274): the beta file is read once
  for every alpha record, so it is not read at all when the alpha file has no record.
\<close>

definition write_pairs ::
    "pairing_fs \<Rightarrow> seq_record list \<Rightarrow> string \<Rightarrow> error + string list" where
  "write_pairs fs alpha_rec beta =
     (if alpha_rec = [] then Inr []
      else bind (fs_parse fs beta) (\<lambda>beta_rec. Inr (pair_lines alpha_rec beta_rec)))"

text \<open>
  The loop over the beta genes of one pair, for the alpha file found: the alpha file is
  opened (line 264), the beta files are counted and asserted to be one (lines 265 and
  266), the output file is opened (line 268) and the pairs are written. The result is
  the list of the files written, each with its lines.
\<close>

fun val_loop ::
    "pairing_fs \<Rightarrow> string list \<Rightarrow> string \<Rightarrow> string \<Rightarrow> string \<Rightarrow> string
       \<Rightarrow> string list \<Rightarrow> error + (string \<times> string list) list" where
  "val_loop fs files out_dir species key alpha [] = Inr []"
| "val_loop fs files out_dir species key alpha (val # vals) =
     bind (fs_parse fs alpha) (\<lambda>alpha_rec.
     let beta = matching files val species in
     if length beta \<noteq> 1 then Inl AssertionError
     else
       let out = out_dir @ ''/'' @ key @ ''_'' @ val @ ''-'' @ species @ ''.fasta'' in
       bind (fs_open_w fs out) (\<lambda>opened.
       bind (write_pairs fs alpha_rec (hd beta)) (\<lambda>lines.
       bind (val_loop fs files out_dir species key alpha vals) (\<lambda>written.
         Inr ((out, lines) # written)))))"

fun pair_loop ::
    "pairing_fs \<Rightarrow> string list \<Rightarrow> string \<Rightarrow> string
       \<Rightarrow> (string \<times> string) list \<Rightarrow> error + (string \<times> string list) list" where
  "pair_loop fs files out_dir species [] = Inr []"
| "pair_loop fs files out_dir species ((key, value) # pairs) =
     (let alpha = matching files key species in
      if \<not> length alpha \<le> 1 then Inl AssertionError
      else if length alpha = 0 then pair_loop fs files out_dir species pairs
      else
        bind (val_loop fs files out_dir species key (hd alpha) (py_split value ''-'')) (\<lambda>w1.
        bind (pair_loop fs files out_dir species pairs) (\<lambda>w2. Inr (w1 @ w2))))"

fun species_loop ::
    "pairing_fs \<Rightarrow> string list \<Rightarrow> string \<Rightarrow> string list
       \<Rightarrow> error + (string \<times> string list) list" where
  "species_loop fs files out_dir [] = Inr []"
| "species_loop fs files out_dir (species # rest) =
     bind (pair_loop fs files out_dir species (DICT species)) (\<lambda>w1.
     bind (species_loop fs files out_dir rest) (\<lambda>w2. Inr (w1 @ w2)))"

text \<open>
  What the two assertions of the loop reject, for one species and one entry of its table:
  more than one file of the alpha gene, or, with exactly one file of the alpha gene, a
  beta gene of the entry that has not exactly one file.
\<close>

definition pairing_violation :: "string list \<Rightarrow> string \<Rightarrow> string \<times> string \<Rightarrow> bool" where
  "pairing_violation files sp kv =
     (1 < length (matching files (fst kv) sp) \<or>
      (length (matching files (fst kv) sp) = 1 \<and>
       (\<exists>val \<in> set (py_split (snd kv) ''-''). length (matching files val sp) \<noteq> 1)))"

text \<open>\<^verbatim>\<open>s.rstrip('/')\<close>\<close>

definition rstrip_slash :: "string \<Rightarrow> string" where
  "rstrip_slash s = rev (dropWhile (\<lambda>c. c = CHR ''/'') (rev s))"

text \<open>
  The list \<^verbatim>\<open>files\<close>: the paths of the listed names that hold the marker of the
  representatives and \<^verbatim>\<open>fasta\<close>, and start with \<^verbatim>\<open>D\<close>.
\<close>

definition representative_files :: "string \<Rightarrow> string list \<Rightarrow> string \<Rightarrow> string list" where
  "representative_files path_to_cluster_representatives names iden_for_representative =
     map (\<lambda>i. os_path_join path_to_cluster_representatives [i])
       (filter (\<lambda>i. contains iden_for_representative i \<and> contains ''fasta'' i \<and>
                     contains ''D'' (take 1 i)) names)"

text \<open>
  The stage up to the end of the pairing loop (lines 244 to 276): the directory is
  listed, the output directory is created under its name without trailing slashes, and
  the loop runs over the species. The table of record counts, written after the loop from
  a listing of the output directory, holds no assertion and is outside the model.
\<close>

definition mhc2_cluster_combination_seqs ::
    "pairing_fs \<Rightarrow> string \<Rightarrow> string \<Rightarrow> string \<Rightarrow> error + (string \<times> string list) list" where
  "mhc2_cluster_combination_seqs fs path_to_cluster_representatives out_dir
       iden_for_representative =
     bind (fs_listdir fs path_to_cluster_representatives) (\<lambda>names.
     let files = representative_files path_to_cluster_representatives names
                   iden_for_representative;
         out_dir = rstrip_slash out_dir
     in bind (fs_makedirs fs out_dir) (\<lambda>made. species_loop fs files out_dir SPECIES))"

section \<open>The structure-input builder \<^verbatim>\<open>create_parsefold_input_from_representatives\<close>\<close>

text \<open>One row of the table built: the columns \<^verbatim>\<open>peptide\<close>, \<^verbatim>\<open>mhc_seq\<close>,
  \<^verbatim>\<open>mhc_type\<close>, \<^verbatim>\<open>anchors\<close> and \<^verbatim>\<open>id\<close>.\<close>

record parsefold_row =
  pf_peptide :: string
  pf_mhc_seq :: string
  pf_mhc_type :: int
  pf_anchors :: "string option"
  pf_id :: string

text \<open>
  The two inner loops: every record of a file, every peptide; one frame of one row each
  time, and the counter goes up by one.
\<close>

fun peptide_loop ::
    "seq_record \<Rightarrow> int \<Rightarrow> string list \<Rightarrow> int \<Rightarrow> parsefold_row list list \<times> int" where
  "peptide_loop r mt [] num = ([], num)"
| "peptide_loop r mt (pep # peps) num =
     (let df = [\<lparr>pf_peptide = pep, pf_mhc_seq = rec_seq r, pf_mhc_type = mt,
                  pf_anchors = None, pf_id = rec_id r @ ''_'' @ str_int num\<rparr>];
          rest = peptide_loop r mt peps (num + 1)
      in (df # fst rest, snd rest))"

fun data_loop ::
    "seq_record list \<Rightarrow> int \<Rightarrow> string list \<Rightarrow> int \<Rightarrow> parsefold_row list list \<times> int" where
  "data_loop [] mt peptides num = ([], num)"
| "data_loop (r # rs) mt peptides num =
     (let here = peptide_loop r mt peptides num;
          rest = data_loop rs mt peptides (snd here)
      in (fst here @ fst rest, snd rest))"

text \<open>The loop over the selected paths, with its own test on \<^verbatim>\<open>_rep\<close> and \<^verbatim>\<open>.fasta\<close>.\<close>

fun file_loop ::
    "(string \<Rightarrow> error + seq_record list) \<Rightarrow> int \<Rightarrow> string list \<Rightarrow> string list \<Rightarrow> int
       \<Rightarrow> error + parsefold_row list list \<times> int" where
  "file_loop parse mt peptides [] num = Inr ([], num)"
| "file_loop parse mt peptides (input_fasta # paths) num =
     (if contains ''_rep'' input_fasta \<and> contains ''.fasta'' input_fasta then
        bind (parse input_fasta) (\<lambda>data.
        let here = data_loop data mt peptides num in
        bind (file_loop parse mt peptides paths (snd here)) (\<lambda>rest.
          Inr (fst here @ fst rest, snd rest)))
      else file_loop parse mt peptides paths num)"

text \<open>
  \<open>listdir\<close> is the outcome of listing \<^verbatim>\<open>fasta_dir\<close>, \<open>isdir\<close> tells the directories
  among its paths, \<open>parse\<close> reads a FASTA file. \<^verbatim>\<open>if no_iden:\<close> holds for a non-empty
  string only.
\<close>

definition list_of_dir ::
    "string list \<Rightarrow> (string \<Rightarrow> bool) \<Rightarrow> string \<Rightarrow> string \<Rightarrow> string option \<Rightarrow> string list" where
  "list_of_dir names isdir fasta_dir iden no_iden =
     (let l1 = filter (\<lambda>i. contains ''.fasta'' i \<or> contains ''.fa'' i) names;
          l2 = filter (\<lambda>i. \<not> isdir (os_path_join fasta_dir [i]) \<and> contains iden i) l1
      in case no_iden of
           None \<Rightarrow> l2
         | Some n \<Rightarrow> if n = [] then l2 else filter (\<lambda>i. \<not> contains n i) l2)"

definition default_peptides :: "string list \<Rightarrow> int \<Rightarrow> string list" where
  "default_peptides peptides mt =
     (if length peptides = 0 then
        (if mt = 1 then [''MRMATPLLM'']
         else if mt = 2 then [''MRMATPLLMQALPM'']
         else peptides)
      else peptides)"

definition create_parsefold_input_from_representatives ::
    "(error + string list) \<Rightarrow> (string \<Rightarrow> bool) \<Rightarrow> (string \<Rightarrow> error + seq_record list) \<Rightarrow> string
       \<Rightarrow> string list \<Rightarrow> int \<Rightarrow> string \<Rightarrow> int \<Rightarrow> string option \<Rightarrow> error + parsefold_row list" where
  "create_parsefold_input_from_representatives listdir isdir parse fasta_dir peptides mt iden
       num no_iden =
     (if mt \<noteq> 2 \<and> mt \<noteq> 1 then Inl AssertionError
      else
        let peptides = default_peptides peptides mt in
        bind listdir (\<lambda>names.
        let paths = map (\<lambda>i. os_path_join fasta_dir [i])
                      (list_of_dir names isdir fasta_dir iden no_iden) in
        bind (file_loop parse mt peptides paths num) (\<lambda>res. pd_concat (fst res))))"

text \<open>
  For the statement of what the builder emits: the paths that pass both the listing of
  the directory and the test of the loop, and the rows of a list of (record, peptide)
  pairs, numbered upwards from the counter.
\<close>

definition selected_paths ::
    "string list \<Rightarrow> (string \<Rightarrow> bool) \<Rightarrow> string \<Rightarrow> string \<Rightarrow> string option \<Rightarrow> string list" where
  "selected_paths names isdir fasta_dir iden no_iden =
     filter (\<lambda>input_fasta. contains ''_rep'' input_fasta \<and> contains ''.fasta'' input_fasta)
       (map (\<lambda>i. os_path_join fasta_dir [i]) (list_of_dir names isdir fasta_dir iden no_iden))"

fun numbered_rows :: "int \<Rightarrow> int \<Rightarrow> (seq_record \<times> string) list \<Rightarrow> parsefold_row list" where
  "numbered_rows mt num [] = []"
| "numbered_rows mt num (rp # rps) =
     \<lparr>pf_peptide = snd rp, pf_mhc_seq = rec_seq (fst rp), pf_mhc_type = mt, pf_anchors = None,
      pf_id = rec_id (fst rp) @ ''_'' @ str_int num\<rparr> # numbered_rows mt (num + 1) rps"

section \<open>The pseudo-sequence extractor \<^verbatim>\<open>match_pseudoseq\<close>\<close>

text \<open>One row of the table of structure-prediction runs, its columns already converted
  as the loop converts them (\<^verbatim>\<open>int(row['chunk_id'])\<close>, \<^verbatim>\<open>str(row['file'])\<close>, ...).\<close>

record clip_row =
  row_chunk_id :: int
  row_file :: string
  row_id :: string
  row_mhc_type :: int
  row_iden :: string

text \<open>One row of the success table.\<close>

record pseudo_row =
  mhc_id :: string
  species :: string
  mhc_types :: int
  pseudo_sequence :: string
  representative_id :: string
  sequence :: string
  repres_pseudo_positions :: string

text \<open>
  A stored integer array: one-dimensional, or two-dimensional with its number of columns
  and its rows. An \<^verbatim>\<open>.npz\<close> artifact is the list of its keys in file order; a member
  is read only when it is accessed, and that read can fail.
\<close>

datatype ndarray = Vec "int list" | Mat nat "int list list"

type_synonym npz = "(string \<times> (error + ndarray)) list"

text \<open>\<^verbatim>\<open>a[:, 1]\<close>: needs two dimensions and at least two columns.\<close>

fun column1 :: "ndarray \<Rightarrow> error + int list" where
  "column1 (Vec xs) = Inl IndexError"
| "column1 (Mat ncols rows) =
     (if 2 \<le> ncols \<and> (\<forall>r \<in> set rows. length r = ncols)
      then Inr (map (\<lambda>r. r ! 1) rows) else Inl IndexError)"

text \<open>
  A cell of a cluster membership table as \<^verbatim>\<open>pd.read_csv\<close> types it: a string, or a
  number when the whole column reads as numbers (identifiers of digits only). A number
  is never equal to a string.
\<close>

datatype cell = Text string | Number int

text \<open>
  What the extractor reads from outside: the run table, the creation of the scratch
  directory (\<^verbatim>\<open>os.makedirs(tmp_dir, exist_ok=True)\<close>), the stored arrays, the cluster
  membership tables (already with the two columns \<^verbatim>\<open>rep\<close> and \<^verbatim>\<open>member\<close>; a table of
  another width is the error of the column assignment), the cluster FASTA files, and the
  external aligner, which maps the scratch file written for a chain (its path and its
  records) to the records parsed from the aligned file, or fails.
\<close>

record world =
  read_clip :: "string \<Rightarrow> error + clip_row list"
  makedirs :: "string \<Rightarrow> error + unit"
  np_load :: "string \<Rightarrow> error + npz"
  read_cluster_tsv :: "string \<Rightarrow> error + (cell \<times> cell) list"
  parse_fasta :: "string \<Rightarrow> error + seq_record list"
  run_mafft :: "string \<Rightarrow> seq_record list \<Rightarrow> error + seq_record list"

text \<open>The parameters of \<^verbatim>\<open>match_pseudoseq\<close>.\<close>

record params =
  clip_dataframe :: string
  input_folder :: string
  path_to_mmseq_clust_folder :: string
  model :: string
  tmp_dir :: string
  continue_from_index :: "int option"

text \<open>
  \<^verbatim>\<open>extract_fasta_sequences\<close>: the records of the input file whose identifier is among
  the headers to keep and whose sequence is not empty, in file order; they are what is
  written to the scratch file. A failure to write it is part of the failures of the
  aligner, which reads it next.
\<close>

definition extract_fasta_sequences ::
    "world \<Rightarrow> string \<Rightarrow> cell list \<Rightarrow> error + seq_record list" where
  "extract_fasta_sequences w input_fasta headers_to_keep =
     bind (parse_fasta w input_fasta) (\<lambda>records.
       Inr (filter (\<lambda>r. Text (rec_id r) \<in> set headers_to_keep \<and> 0 < length (rec_seq r))
              records))"

text \<open>
  \<^verbatim>\<open>iden = '_'.join(str(row['iden']).split('_')[:-1]).split(';;')\<close>
\<close>

definition iden_of :: "clip_row \<Rightarrow> string list" where
  "iden_of row = py_split (py_join ''_'' (butlast (py_split (row_iden row) ''_''))) '';;''"

text \<open>\<^verbatim>\<open>f.split('-')[1].split('_')[0]\<close>, the species of a file name.\<close>

definition species_of :: "string \<Rightarrow> error + string" where
  "species_of f =
     bind (getitem (py_split f ''-'') 1) (\<lambda>after. getitem (py_split after ''_'') 0)"

text \<open>
  The loop over the aligned records of one chain. It collects the rows of the records
  that have a non-empty sequence and a non-empty pseudo-sequence; an exception ends it.
\<close>

fun record_loop ::
    "string \<Rightarrow> string \<Rightarrow> int \<Rightarrow> int list \<Rightarrow> seq_record list \<Rightarrow> error + pseudo_row list" where
  "record_loop f rep mhc_type mhc_position [] = Inr []"
| "record_loop f rep mhc_type mhc_position (r # rs) =
     (if rec_seq r \<noteq> [] then
        bind (filtered_seq (rec_seq r) mhc_position) (\<lambda>fs.
          if fs \<noteq> [] then
            bind (species_of f) (\<lambda>sp.
            bind (record_loop f rep mhc_type mhc_position rs) (\<lambda>rows.
              Inr (\<lparr>mhc_id = rec_id r, species = sp, mhc_types = mhc_type,
                    pseudo_sequence = fs, representative_id = rep, sequence = rec_seq r,
                    repres_pseudo_positions = py_join '';'' (map str_int mhc_position)\<rparr>
                   # rows)))
          else record_loop f rep mhc_type mhc_position rs)
      else record_loop f rep mhc_type mhc_position rs)"

text \<open>
  The two accumulators of the extractor: \<^verbatim>\<open>DF\<close>, a list of success tables, and
  \<^verbatim>\<open>FAILED\<close>, a list of one-row failure tables.
\<close>

type_synonym accs = "pseudo_row list list \<times> string list list"

text \<open>
  Lines 386 to 414: the record loop of a chain and, after it, the append of the collected
  rows as one success table, or of one failure row when no row was collected.
\<close>

definition extract_chain ::
    "string \<Rightarrow> string \<Rightarrow> int \<Rightarrow> int list \<Rightarrow> seq_record list \<Rightarrow> accs \<Rightarrow> error + accs" where
  "extract_chain f rep mhc_type mhc_position aligned acc =
     bind (record_loop f rep mhc_type mhc_position aligned) (\<lambda>rows.
       if length rows \<noteq> 0 then Inr (fst acc @ [rows], snd acc)
       else Inr (fst acc, snd acc @ [[rep]]))"

text \<open>
  The specification's reading of step 6, for comparison with \<open>extract_chain\<close>: every record
  with a non-empty sequence appends a row of its own, a success row when its
  pseudo-sequence is not empty and a failure row for the representative identifier
  otherwise. The result is the success rows and the failure rows appended.
\<close>

fun spec_record_rows ::
    "string \<Rightarrow> string \<Rightarrow> int \<Rightarrow> int list \<Rightarrow> seq_record list
       \<Rightarrow> error + pseudo_row list \<times> string list" where
  "spec_record_rows f rep mhc_type mhc_position [] = Inr ([], [])"
| "spec_record_rows f rep mhc_type mhc_position (r # rs) =
     (if rec_seq r \<noteq> [] then
        bind (filtered_seq (rec_seq r) mhc_position) (\<lambda>fs.
        bind (spec_record_rows f rep mhc_type mhc_position rs) (\<lambda>rest.
          if fs \<noteq> [] then
            bind (species_of f) (\<lambda>sp.
              Inr (\<lparr>mhc_id = rec_id r, species = sp, mhc_types = mhc_type,
                    pseudo_sequence = fs, representative_id = rep, sequence = rec_seq r,
                    repres_pseudo_positions = py_join '';'' (map str_int mhc_position)\<rparr>
                   # fst rest, snd rest))
          else Inr (fst rest, rep # snd rest)))
      else spec_record_rows f rep mhc_type mhc_position rs)"

text \<open>
  The body of the \<^verbatim>\<open>try\<close> block of one chain (lines 366 to 414): the chain-count
  assertions, the cluster table, the extraction, the alignment, the contact positions, and
  the record loop with its append to one of the accumulators.
\<close>

definition try_body ::
    "world \<Rightarrow> params \<Rightarrow> npz \<Rightarrow> clip_row \<Rightarrow> int \<Rightarrow> nat \<Rightarrow> string \<Rightarrow> accs \<Rightarrow> error + accs" where
  "try_body w p arr row number enum f acc =
     (let Files = row_file row;
          mhc_type = row_mhc_type row;
          iden = iden_of row;
          mmseq_file = f;
          input_fasta = os_path_join (path_to_mmseq_clust_folder p) [mmseq_file];
          output_fasta = os_path_join (tmp_dir p) [str_int number @ ''_'' @ mmseq_file];
          expected = (if mhc_type = 2 then 2 else 1)
      in
      if length iden \<noteq> expected then Inl AssertionError
      else if length (py_split Files '';;'') \<noteq> expected then Inl AssertionError
      else
        let tsvfile = py_replace mmseq_file ''clust_all_seqs.fasta'' ''clust_cluster.tsv'' in
        bind (read_cluster_tsv w (os_path_join (path_to_mmseq_clust_folder p) [tsvfile])) (\<lambda>tsv.
        bind (getitem iden (int enum)) (\<lambda>rep.
        let headers_to_keep = map snd (filter (\<lambda>(r, m). r = Text rep) tsv) in
        bind (extract_fasta_sequences w input_fasta headers_to_keep) (\<lambda>written.
        bind (run_mafft w output_fasta written) (\<lambda>aligned.
        bind (getitem arr (int enum)) (\<lambda>(key, member).
        bind member (\<lambda>a.
        bind (column1 a) (\<lambda>col.
        let mhc_position = np_unique col in
        extract_chain f rep mhc_type mhc_position aligned acc))))))))"

text \<open>
  One chain: files of the excluded species are skipped; otherwise the \<^verbatim>\<open>try\<close> block
  runs, and the bare \<^verbatim>\<open>except\<close> appends the failure row \<^verbatim>\<open>iden[enum]\<close>, an
  expression that raises itself when the identifier list is too short.
\<close>

definition chain_step ::
    "world \<Rightarrow> params \<Rightarrow> npz \<Rightarrow> clip_row \<Rightarrow> int \<Rightarrow> nat \<times> string \<Rightarrow> accs \<Rightarrow> error + accs" where
  "chain_step w p arr row number ef acc =
     (let enum = fst ef; f = snd ef in
      if \<not> contains ''mice'' f then
        (case try_body w p arr row number enum f acc of
           Inr acc' \<Rightarrow> Inr acc'
         | Inl e \<Rightarrow>
             bind (getitem (iden_of row) (int enum)) (\<lambda>rep. Inr (fst acc, snd acc @ [[rep]])))
      else Inr acc)"

fun chain_loop ::
    "world \<Rightarrow> params \<Rightarrow> npz \<Rightarrow> clip_row \<Rightarrow> int \<Rightarrow> (nat \<times> string) list \<Rightarrow> accs \<Rightarrow> error + accs" where
  "chain_loop w p arr row number [] acc = Inr acc"
| "chain_loop w p arr row number (ef # efs) acc =
     bind (chain_step w p arr row number ef acc) (\<lambda>acc'. chain_loop w p arr row number efs acc')"

text \<open>The path of the stored arrays of a run (lines 354 and 355).\<close>

definition npzpath_of :: "params \<Rightarrow> clip_row \<Rightarrow> string" where
  "npzpath_of p row =
     (let chunk = row_chunk_id row; ident = row_id row;
          path = os_path_join (input_folder p)
                   [str_int chunk, ''protienmpnn'', ident, ident @ ''_model_1_'' @ model p]
      in os_path_join path [''hotspots.npz''])"

text \<open>One row: the stored arrays are loaded before the loop over the chains.\<close>

definition row_step :: "world \<Rightarrow> params \<Rightarrow> int \<times> clip_row \<Rightarrow> accs \<Rightarrow> error + accs" where
  "row_step w p nrow acc =
     (let number = fst nrow; row = snd nrow;
          Files = row_file row;
          npzpath = npzpath_of p row
      in
      bind (np_load w npzpath) (\<lambda>arr.
        chain_loop w p arr row number (enumerate 0 (py_split Files '';;'')) acc))"

fun row_loop :: "world \<Rightarrow> params \<Rightarrow> (int \<times> clip_row) list \<Rightarrow> accs \<Rightarrow> error + accs" where
  "row_loop w p [] acc = Inr acc"
| "row_loop w p (nrow # nrows) acc =
     bind (row_step w p nrow acc) (\<lambda>acc'. row_loop w p nrows acc')"

text \<open>
  \<^verbatim>\<open>df.iloc[k:, :]\<close> on the rows with their index labels: a negative \<open>k\<close> counts from
  the end. The slice is taken only when \<^verbatim>\<open>continue_from_index\<close> is neither
  \<^verbatim>\<open>None\<close> nor \<open>0\<close>.
\<close>

definition iloc_from :: "int \<Rightarrow> 'a list \<Rightarrow> 'a list" where
  "iloc_from k xs = (if 0 \<le> k then drop (nat k) xs else drop (nat (int (length xs) + k)) xs)"

definition indexed_rows :: "int option \<Rightarrow> clip_row list \<Rightarrow> (int \<times> clip_row) list" where
  "indexed_rows cont rows =
     (let df = zip (map int [0 ..< length rows]) rows in
      case cont of
        None \<Rightarrow> df
      | Some k \<Rightarrow> if k = 0 then df else iloc_from k df)"

text \<open>The tables the extractor writes, by file name and in the order of writing.\<close>

datatype table = Pseudo_table "pseudo_row list" | Failed_table "string list"

definition dedup_key :: "pseudo_row \<Rightarrow> string \<times> string \<times> int \<times> string \<times> string" where
  "dedup_key r = (mhc_id r, species r, mhc_types r, representative_id r, pseudo_sequence r)"

text \<open>
  The code after the loop (lines 421 to 430). The result pairs the files written so far
  with the outcome: an exception, or the return of \<^verbatim>\<open>None\<close>. The deduplicated success
  table is assigned back (\<^verbatim>\<open>DF = DF.drop_duplicates(...)\<close>); the result of
  \<^verbatim>\<open>FAILED.drop_duplicates(subset=['iden'])\<close> is not assigned, and
  \<^verbatim>\<open>FAILED.to_csv('FAILED_noduplicate.tsv', ...)\<close> writes \<^verbatim>\<open>FAILED\<close> itself. The
  four writes are taken to succeed.
\<close>

definition post_loop :: "accs \<Rightarrow> (string \<times> table) list \<times> (error + unit)" where
  "post_loop acc =
     (case pd_concat (fst acc) of
        Inl e \<Rightarrow> ([], Inl e)
      | Inr DF \<Rightarrow>
          let out1 = [(''DF.tsv'', Pseudo_table DF)];
              DF' = drop_duplicates dedup_key DF;
              out2 = out1 @ [(''DF_noduplicate.tsv'', Pseudo_table DF')]
          in
          (case pd_concat (snd acc) of
             Inl e \<Rightarrow> (out2, Inl e)
           | Inr FAILED \<Rightarrow>
               let out3 = out2 @ [(''FAILED.tsv'', Failed_table FAILED)];
                   discarded = drop_duplicates (\<lambda>i. i) FAILED
               in (out3 @ [(''FAILED_noduplicate.tsv'', Failed_table FAILED)], Inr ())))"

definition extraction_loop :: "world \<Rightarrow> params \<Rightarrow> error + accs" where
  "extraction_loop w p =
     bind (read_clip w (clip_dataframe p)) (\<lambda>rows.
     let df = indexed_rows (continue_from_index p) rows in
     bind (makedirs w (tmp_dir p)) (\<lambda>_.
       row_loop w p df ([], [])))"

definition match_pseudoseq :: "world \<Rightarrow> params \<Rightarrow> (string \<times> table) list \<times> (error + unit)" where
  "match_pseudoseq w p =
     (case extraction_loop w p of
        Inl e \<Rightarrow> ([], Inl e)
      | Inr acc \<Rightarrow> post_loop acc)"

section \<open>Concrete inputs\<close>

text \<open>
  A small world for the extractor: one cluster table with the clusters \<open>R1\<close> (members
  \<open>m1\<close>, \<open>m2\<close>) and \<open>R2\<close> (member \<open>m3\<close>), one cluster FASTA file with sequences of
  equal length, an aligner that returns equal-length sequences unchanged, and an artifact
  with two arrays whose second columns hold the positions \<open>1, 3, 1\<close> and \<open>9\<close>. The
  artifact of a run whose identifier contains \<open>lost\<close> does not exist.
\<close>

definition demo_members :: "seq_record list" where
  "demo_members =
     [\<lparr>rec_id = ''m1'', rec_description = ''m1 A*01'', rec_seq = ''ACDE''\<rparr>,
      \<lparr>rec_id = ''m2'', rec_description = ''m2 A*02'', rec_seq = ''ACDF''\<rparr>,
      \<lparr>rec_id = ''m3'', rec_description = ''m3 A*03'', rec_seq = ''GGGG''\<rparr>]"

definition demo_npz :: npz where
  "demo_npz = [(''arr_0'', Inr (Mat 2 [[0, 1], [0, 3], [1, 1]])), (''arr_1'', Inr (Mat 2 [[0, 9]]))]"

definition demo_world :: "clip_row list \<Rightarrow> world" where
  "demo_world rows =
     \<lparr>read_clip = (\<lambda>path. Inr rows),
      makedirs = (\<lambda>path. Inr ()),
      np_load = (\<lambda>path. if contains ''lost'' path then Inl OSError else Inr demo_npz),
      read_cluster_tsv = (\<lambda>path. Inr [(Text ''R1'', Text ''m1''), (Text ''R1'', Text ''m2''),
                                        (Text ''R2'', Text ''m3'')]),
      parse_fasta = (\<lambda>path. Inr demo_members),
      run_mafft = (\<lambda>path records. Inr records)\<rparr>"

definition demo_params :: params where
  "demo_params =
     \<lparr>clip_dataframe = ''data/CLIP_example.tsv'',
      input_folder = ''outputs_representatives'',
      path_to_mmseq_clust_folder = ''data/HLA_alleles/processed/mmseq_clust'',
      model = ''model_2_ptm'',
      tmp_dir = ''tmpmmseq'',
      continue_from_index = None\<rparr>"

text \<open>A well-formed class 1 run of cluster \<open>R1\<close>.\<close>

definition good_row :: clip_row where
  "good_row = \<lparr>row_chunk_id = 0, row_file = ''A-homo_clust_all_seqs.fasta'', row_id = ''run0'',
               row_mhc_type = 1, row_iden = ''R1_0''\<rparr>"

text \<open>The same run, its artifact missing.\<close>

definition lost_row :: clip_row where
  "lost_row = good_row\<lparr>row_id := ''lost_run''\<rparr>"

text \<open>A class 1 run with two file names and one representative identifier.\<close>

definition two_files_row :: clip_row where
  "two_files_row =
     \<lparr>row_chunk_id = 0,
      row_file = ''A-homo_clust_all_seqs.fasta;;B-homo_clust_all_seqs.fasta'',
      row_id = ''run1'', row_mhc_type = 1, row_iden = ''R1_1''\<rparr>"

text \<open>A class 2 run with one file name and one representative identifier.\<close>

definition one_file_row :: clip_row where
  "one_file_row = \<lparr>row_chunk_id = 0, row_file = ''DRA-homo_clust_all_seqs.fasta'',
                   row_id = ''run2'', row_mhc_type = 2, row_iden = ''R9_2''\<rparr>"

text \<open>A well-formed class 2 run: both chains of cluster \<open>R1\<close>.\<close>

definition class2_row :: clip_row where
  "class2_row =
     \<lparr>row_chunk_id = 0,
      row_file = ''DRA-homo_clust_all_seqs.fasta;;DRB-homo_clust_all_seqs.fasta'',
      row_id = ''run3'', row_mhc_type = 2, row_iden = ''R1;;R1_3''\<rparr>"

text \<open>The two aligned members of cluster \<open>R1\<close>.\<close>

definition demo_aligned :: "seq_record list" where
  "demo_aligned = take 2 demo_members"

text \<open>
  The example of the specification for the coverage filter: a reference of length 8 and
  a query that covers 4 of its 8 positions.
\<close>

definition ex_reference :: seq_record where
  "ex_reference = \<lparr>rec_id = ''ref'', rec_description = ''ref'', rec_seq = ''AAAACCCC''\<rparr>"

definition ex_query :: seq_record where
  "ex_query = \<lparr>rec_id = ''q1'', rec_description = ''q1'', rec_seq = ''AAAA----''\<rparr>"

text \<open>A reference of length 100 and a query that covers 57 of its 100 positions.\<close>

definition cov_reference :: seq_record where
  "cov_reference = \<lparr>rec_id = ''ref'', rec_description = ''ref'', rec_seq = replicate 100 CHR ''A''\<rparr>"

definition cov_query :: seq_record where
  "cov_query = \<lparr>rec_id = ''q57'', rec_description = ''q57'',
                 rec_seq = replicate 57 CHR ''A'' @ replicate 43 CHR ''-''\<rparr>"

text \<open>A reference that holds the placeholder \<open>X\<close>, and a query with a gap.\<close>

definition gap_reference :: seq_record where
  "gap_reference = \<lparr>rec_id = ''ref'', rec_description = ''ref'', rec_seq = ''ACXC''\<rparr>"

definition gap_query :: seq_record where
  "gap_query = \<lparr>rec_id = ''q1'', rec_description = ''q1'', rec_seq = ''AC-C''\<rparr>"

text \<open>A reader of FASTA files that finds the three demonstration records in every file.\<close>

definition demo_parse :: "string \<Rightarrow> error + seq_record list" where
  "demo_parse path = Inr demo_members"

text \<open>
  A file system for the pairing stage, given the names of the directory listed: every
  file holds the three demonstration records, every output file can be opened, and the
  output directory can be created unless its name is empty.
\<close>

definition demo_fs :: "string list \<Rightarrow> pairing_fs" where
  "demo_fs names =
     \<lparr>fs_listdir = (\<lambda>path. Inr names),
      fs_makedirs = (\<lambda>path. if path = [] then Inl OSError else Inr ()),
      fs_open_w = (\<lambda>path. Inr ()),
      fs_parse = demo_parse\<rparr>"

text \<open>
  A class 1 run with two file names and two representative identifiers, and a batch of
  three runs whose second one has no artifact.
\<close>

definition two_files_two_idens_row :: clip_row where
  "two_files_two_idens_row =
     \<lparr>row_chunk_id = 0,
      row_file = ''A-homo_clust_all_seqs.fasta;;B-homo_clust_all_seqs.fasta'',
      row_id = ''run4'', row_mhc_type = 1, row_iden = ''R1;;R2_4''\<rparr>"

definition lost_batch :: "clip_row list" where
  "lost_batch = [good_row, lost_row, good_row]"

text \<open>
  Two directories of cluster representatives: one with two files of the beta gene
  \<open>DMB\<close> and none of the alpha gene \<open>DMA\<close>, one with a single file of \<open>DMA\<close> and no
  file of \<open>DMB\<close>.
\<close>

definition beta_only_names :: "string list" where
  "beta_only_names = [''DMB-homo_a_rep_seq.fasta'', ''DMB-homo_b_rep_seq.fasta'']"

definition alpha_only_names :: "string list" where
  "alpha_only_names = [''DMA-homo_clust_rep_seq.fasta'']"

text \<open>A directory without sub-directories.\<close>

definition demo_isdir :: "string \<Rightarrow> bool" where
  "demo_isdir path = False"

section \<open>Properties\<close>

lemma bind_Inr [simp]: "bind (Inr v) f = f v"
  by (simp add: bind_def)

lemma bind_Inl [simp]: "bind (Inl e) f = Inl e"
  by (simp add: bind_def)

lemma getitem_nonneg: "0 \<le> i \<Longrightarrow> i < int (length xs) \<Longrightarrow> getitem xs i = Inr (xs ! nat i)"
  by (simp add: getitem_def)

lemma filtered_seq_nonneg:
  "\<forall>p \<in> set ps. 0 \<le> p \<Longrightarrow>
   filtered_seq s ps = Inr (map (\<lambda>p. s ! nat p) (filter (\<lambda>p. p < int (length s)) ps))"
  by (induction ps) (simp_all add: getitem_nonneg)

lemma np_unique_set [simp]: "set (np_unique xs) = set xs"
  by (simp add: np_unique_def)

lemma np_unique_sorted: "sorted (np_unique xs)"
  by (simp add: np_unique_def)

lemma np_unique_distinct: "distinct (np_unique xs)"
  by (simp add: np_unique_def)

subsection \<open>The coverage filter\<close>

text \<open>
  With a non-empty reference the loop never raises: a record is retained exactly when it
  carries the identifier of the reference or the float computed for its coverage reaches
  the threshold; the first kind is written as it is, the second without \<open>-\<close> and \<open>X\<close>.
\<close>

lemma filter_loop_retained:
  assumes "0 < L"
  shows "filter_loop rid L t rs =
    Inr (map (\<lambda>r. if rec_id r = rid then r
                   else r\<lparr>rec_seq := py_replace (py_replace (rec_seq r) ''-'' []) ''X'' []\<rparr>)
          (filter (\<lambda>r. rec_id r = rid \<or>
             float_ge_int (float_mul_int
               (round_ratio (int (length (filter (\<lambda>res. res \<noteq> CHR ''-'') (rec_seq r)))) (int L)) 100) t)
           rs))"
  using assms by (induction rs) (simp_all add: compute_coverage_def int_truediv_def)

text \<open>
  Known values of binary64: \<open>1 / 10\<close> is \<^verbatim>\<open>0x1.999999999999ap-4\<close>, and integers
  beyond \<open>2\<^sup>5\<^sup>3\<close> round to the even neighbour.
\<close>

lemma round_ratio_known_values:
  "round_ratio 1 10 = (7205759403792794, - 56)"
  "round_ratio (2 ^ 53 + 1) 1 = (2 ^ 52, 1)"
  "round_ratio (2 ^ 53 + 3) 1 = (2 ^ 52 + 2, 1)"
  "round_ratio 57 100 = (5134103575202365, - 53)"
  by code_simp+

text \<open>The example of the specification: 4 of 8 positions at the thresholds 50 and 51.\<close>

lemma coverage_example_50:
  "filter_mafft_alignment (Inr [ex_reference, ex_query]) (Inr [ex_reference]) 50 =
     Inr ([ex_reference, ex_query\<lparr>rec_seq := ''AAAA''\<rparr>], 2, 2)"
  by code_simp

lemma coverage_example_51:
  "filter_mafft_alignment (Inr [ex_reference, ex_query]) (Inr [ex_reference]) 51 =
     Inr ([ex_reference], 2, 1)"
  by code_simp

subsection \<open>The record loop\<close>

lemma record_loop_rows:
  assumes "\<forall>p \<in> set ps. 0 \<le> p" and "species_of f = Inr sp"
  shows "record_loop f rep t ps rs =
    Inr (map (\<lambda>r. \<lparr>mhc_id = rec_id r, species = sp, mhc_types = t,
                    pseudo_sequence = map (\<lambda>p. rec_seq r ! nat p)
                                        (filter (\<lambda>p. p < int (length (rec_seq r))) ps),
                    representative_id = rep, sequence = rec_seq r,
                    repres_pseudo_positions = py_join '';'' (map str_int ps)\<rparr>)
          (filter (\<lambda>r. rec_seq r \<noteq> [] \<and> (\<exists>p \<in> set ps. p < int (length (rec_seq r)))) rs))"
  using assms by (induction rs) (auto simp: filtered_seq_nonneg filter_empty_conv)


subsection \<open>The pairing loops\<close>

text \<open>
  When every listed file can be parsed and every output file can be opened, each of the
  three nested loops either ends in the assertion failure, and then one of its iterations
  holds a violation, or completes, and then none does.
\<close>

lemma write_pairs_result:
  assumes "\<exists>rs. fs_parse fs beta = Inr rs"
  shows "\<exists>lines. write_pairs fs alpha_rec beta = Inr lines"
  using assms by (auto simp: write_pairs_def)

lemma val_loop_result:
  assumes ok: "\<forall>f \<in> set files. \<exists>rs. fs_parse fs f = Inr rs"
    and op: "\<forall>out. fs_open_w fs out = Inr ()"
    and a: "alpha \<in> set files"
  shows "(val_loop fs files out sp k alpha vals = Inl AssertionError \<and>
            (\<exists>val \<in> set vals. length (matching files val sp) \<noteq> 1)) \<or>
         ((\<exists>w. val_loop fs files out sp k alpha vals = Inr w) \<and>
            \<not> (\<exists>val \<in> set vals. length (matching files val sp) \<noteq> 1))"
proof (induction vals)
  case Nil
  then show ?case by simp
next
  case (Cons val vals)
  from ok a obtain ars where ar: "fs_parse fs alpha = Inr ars"
    by blast
  show ?case
  proof (cases "length (matching files val sp) = 1")
    case False
    with ar show ?thesis by simp
  next
    case True
    then have "hd (matching files val sp) \<in> set (matching files val sp)"
      by (cases "matching files val sp") simp_all
    then have "hd (matching files val sp) \<in> set files"
      by (simp add: matching_def)
    with ok have "\<exists>rs. fs_parse fs (hd (matching files val sp)) = Inr rs"
      by blast
    from write_pairs_result [OF this] obtain lines
      where w: "write_pairs fs ars (hd (matching files val sp)) = Inr lines"
      by blast
    from Cons.IH show ?thesis
      using True w ar op by (auto simp: Let_def)
  qed
qed

lemma pair_loop_result:
  assumes ok: "\<forall>f \<in> set files. \<exists>rs. fs_parse fs f = Inr rs"
    and op: "\<forall>out. fs_open_w fs out = Inr ()"
  shows "(pair_loop fs files out sp pairs = Inl AssertionError \<and>
            (\<exists>kv \<in> set pairs. pairing_violation files sp kv)) \<or>
         ((\<exists>w. pair_loop fs files out sp pairs = Inr w) \<and>
            \<not> (\<exists>kv \<in> set pairs. pairing_violation files sp kv))"
proof (induction pairs)
  case Nil
  then show ?case by simp
next
  case (Cons kv pairs)
  obtain k v where kv: "kv = (k, v)"
    by (cases kv)
  consider (many) "1 < length (matching files k sp)"
    | (none) "length (matching files k sp) = 0"
    | (one) "length (matching files k sp) = 1"
    by linarith
  then show ?case
  proof cases
    case many
    then show ?thesis by (simp add: kv pairing_violation_def)
  next
    case none
    with Cons.IH show ?thesis by (simp add: kv pairing_violation_def)
  next
    case one
    then have "hd (matching files k sp) \<in> set (matching files k sp)"
      by (cases "matching files k sp") simp_all
    then have a: "hd (matching files k sp) \<in> set files"
      by (simp add: matching_def)
    from val_loop_result [OF ok op a, of out sp k "py_split v ''-''"] Cons.IH one
    show ?thesis
      by (auto simp: kv pairing_violation_def)
  qed
qed

lemma species_loop_result:
  assumes ok: "\<forall>f \<in> set files. \<exists>rs. fs_parse fs f = Inr rs"
    and op: "\<forall>out. fs_open_w fs out = Inr ()"
  shows "(species_loop fs files out sps = Inl AssertionError \<and>
            (\<exists>sp \<in> set sps. \<exists>kv \<in> set (DICT sp). pairing_violation files sp kv)) \<or>
         ((\<exists>w. species_loop fs files out sps = Inr w) \<and>
            \<not> (\<exists>sp \<in> set sps. \<exists>kv \<in> set (DICT sp). pairing_violation files sp kv))"
proof (induction sps)
  case Nil
  then show ?case by simp
next
  case (Cons sp sps)
  from pair_loop_result [OF ok op, of out sp "DICT sp"] Cons.IH show ?case
    by auto
qed

text \<open>
  The output directory is created before the loop: when that fails, for instance for an
  empty name or a name of slashes only, the run ends there, before any assertion.
\<close>

lemma pairing_makedirs_failure:
  assumes "fs_listdir fs path = Inr names" and "fs_makedirs fs (rstrip_slash out_dir) = Inl e"
  shows "mhc2_cluster_combination_seqs fs path out_dir iden = Inl e"
  using assms by (simp add: mhc2_cluster_combination_seqs_def Let_def)

lemma pairing_makedirs_failure_example:
  "mhc2_cluster_combination_seqs (demo_fs alpha_only_names) ''clusters'' ''/'' ''_rep'' = Inl OSError"
  by code_simp

subsection \<open>The loops of the structure-input builder\<close>

lemma numbered_rows_append:
  "numbered_rows mt num (xs @ ys) =
   numbered_rows mt num xs @ numbered_rows mt (num + int (length xs)) ys"
  by (induction xs arbitrary: num) (simp_all add: add.assoc)

lemma length_numbered_rows [simp]: "length (numbered_rows mt num rps) = length rps"
  by (induction rps arbitrary: num) simp_all

lemma numbered_rows_nth:
  "i < length rps \<Longrightarrow>
   numbered_rows mt num rps ! i =
     \<lparr>pf_peptide = snd (rps ! i), pf_mhc_seq = rec_seq (fst (rps ! i)), pf_mhc_type = mt,
      pf_anchors = None, pf_id = rec_id (fst (rps ! i)) @ ''_'' @ str_int (num + int i)\<rparr>"
proof (induction rps arbitrary: num i)
  case Nil
  then show ?case by simp
next
  case (Cons rp rps)
  show ?case
  proof (cases i)
    case 0
    then show ?thesis by simp
  next
    case (Suc j)
    with Cons.prems have "j < length rps" by simp
    from Cons.IH [OF this, of "num + 1"] Suc show ?thesis
      by (simp add: algebra_simps)
  qed
qed

lemma peptide_loop_rows:
  "peptide_loop r mt peps num =
     (map (\<lambda>row. [row]) (numbered_rows mt num (map (Pair r) peps)), num + int (length peps))"
  by (induction peps arbitrary: num) (simp_all add: Let_def)

lemma data_loop_rows:
  "data_loop rs mt peps num =
     (map (\<lambda>row. [row]) (numbered_rows mt num (List.product rs peps)),
      num + int (length (List.product rs peps)))"
  by (induction rs arbitrary: num)
     (simp_all add: Let_def peptide_loop_rows numbered_rows_append add.assoc del: length_product)

lemma file_loop_rows:
  assumes "\<forall>path \<in> set paths.
             contains ''_rep'' path \<and> contains ''.fasta'' path \<longrightarrow> parse path = Inr (data path)"
  shows "file_loop parse mt peps paths num =
     Inr (map (\<lambda>row. [row]) (numbered_rows mt num
            (concat (map (\<lambda>path. List.product (data path) peps)
               (filter (\<lambda>path. contains ''_rep'' path \<and> contains ''.fasta'' path) paths)))),
          num + int (length (concat (map (\<lambda>path. List.product (data path) peps)
               (filter (\<lambda>path. contains ''_rep'' path \<and> contains ''.fasta'' path) paths)))))"
  using assms
  by (induction paths arbitrary: num)
     (simp_all add: Let_def data_loop_rows numbered_rows_append add.assoc del: length_product)

subsection \<open>Decimal numerals are injective\<close>

lemma digit_char_code: "d < 10 \<Longrightarrow> (of_char (digit_char d) :: nat) = 48 + d"
proof -
  assume "d < 10"
  then consider "d = 0" | "d = 1" | "d = 2" | "d = 3" | "d = 4"
    | "d = 5" | "d = 6" | "d = 7" | "d = 8" | "d = 9"
    by atomize_elim presburger
  then show ?thesis
    by cases (simp_all add: digit_char_def)
qed

lemma digit_char_inj:
  assumes "a < 10" and "b < 10" and "digit_char a = digit_char b"
  shows "a = b"
proof -
  have "(of_char (digit_char a) :: nat) = of_char (digit_char b)"
    by (simp only: assms(3))
  then have "48 + a = 48 + b"
    by (simp only: digit_char_code [OF assms(1)] digit_char_code [OF assms(2)])
  then show ?thesis
    by simp
qed

lemma digit_char_plain:
  assumes "d < 10"
  shows "digit_char d \<noteq> CHR ''_'' \<and> digit_char d \<noteq> CHR ''-''"
proof -
  have "(of_char (digit_char d) :: nat) \<noteq> of_char CHR ''_''"
    and "(of_char (digit_char d) :: nat) \<noteq> of_char CHR ''-''"
    using assms by (simp_all only: digit_char_code [OF assms]) simp_all
  then show ?thesis
    by auto
qed

lemma str_nat_nonempty: "str_nat n \<noteq> []"
  by (subst str_nat.simps) simp

lemma str_nat_plain: "c \<in> set (str_nat n) \<Longrightarrow> c \<noteq> CHR ''_'' \<and> c \<noteq> CHR ''-''"
proof (induction n rule: str_nat.induct)
  case (1 n)
  show ?case
  proof (cases "n < 10")
    case True
    with "1.prems" have "c = digit_char n"
      by (subst (asm) str_nat.simps) simp
    with True show ?thesis
      by (simp add: digit_char_plain)
  next
    case False
    with "1.prems" have "c \<in> set (str_nat (n div 10)) \<or> c = digit_char (n mod 10)"
      by (subst (asm) str_nat.simps) auto
    with "1.IH" False show ?thesis
      by (auto simp: digit_char_plain)
  qed
qed

lemma str_nat_inj: "str_nat m = str_nat n \<Longrightarrow> m = n"
proof (induction m arbitrary: n rule: str_nat.induct)
  case (1 m)
  show ?case
  proof (cases "m < 10")
    case m: True
    show ?thesis
    proof (cases "n < 10")
      case True
      with m "1.prems" show ?thesis
        by (subst (asm) (1 2) str_nat.simps) (simp add: digit_char_inj)
    next
      case False
      with m "1.prems" have "[digit_char m] = str_nat (n div 10) @ [digit_char (n mod 10)]"
        by (subst (asm) (1 2) str_nat.simps) simp
      then show ?thesis
        using str_nat_nonempty [of "n div 10"] by simp
    qed
  next
    case m: False
    show ?thesis
    proof (cases "n < 10")
      case True
      with m "1.prems" have "str_nat (m div 10) @ [digit_char (m mod 10)] = [digit_char n]"
        by (subst (asm) (1 2) str_nat.simps) simp
      then show ?thesis
        using str_nat_nonempty [of "m div 10"] by simp
    next
      case False
      with m "1.prems"
      have "str_nat (m div 10) @ [digit_char (m mod 10)] =
            str_nat (n div 10) @ [digit_char (n mod 10)]"
        by (subst (asm) (1 2) str_nat.simps) simp
      then have a: "str_nat (m div 10) = str_nat (n div 10)"
        and b: "digit_char (m mod 10) = digit_char (n mod 10)"
        by simp_all
      from "1.IH" [OF m a] have "m div 10 = n div 10" .
      moreover from b have "m mod 10 = n mod 10"
        by (simp add: digit_char_inj)
      ultimately show ?thesis
        by (metis div_mult_mod_eq)
    qed
  qed
qed

lemma str_int_plain: "CHR ''_'' \<notin> set (str_int i)"
  using str_nat_plain by (auto simp: str_int_def)

lemma str_int_inj: "str_int i = str_int j \<Longrightarrow> i = j"
proof -
  assume eq: "str_int i = str_int j"
  have no_minus: "\<And>n s. str_nat n \<noteq> CHR ''-'' # s"
  proof
    fix n s
    assume "str_nat n = CHR ''-'' # s"
    then have "CHR ''-'' \<in> set (str_nat n)"
      by simp
    with str_nat_plain show False
      by blast
  qed
  consider (neg) "i < 0" "j < 0" | (pos) "0 \<le> i" "0 \<le> j"
    | (np) "i < 0" "0 \<le> j" | (pn) "0 \<le> i" "j < 0"
    by linarith
  then show ?thesis
  proof cases
    case neg
    with eq have "nat (- i) = nat (- j)"
      by (simp add: str_int_def str_nat_inj)
    with neg show ?thesis by simp
  next
    case pos
    with eq have "nat i = nat j"
      by (simp add: str_int_def str_nat_inj)
    with pos show ?thesis by simp
  next
    case np
    with eq no_minus [of "nat j" "str_nat (nat (- i))"] show ?thesis
      by (simp add: str_int_def)
  next
    case pn
    with eq no_minus [of "nat i" "str_nat (nat (- j))"] show ?thesis
      by (simp add: str_int_def)
  qed
qed

text \<open>An identifier ends with the last underscore and the numeral of the counter.\<close>

lemma suffixed_id_inj:
  assumes "a @ CHR ''_'' # str_int i = b @ CHR ''_'' # str_int j"
  shows "i = j"
proof -
  have cut: "takeWhile (\<lambda>c. c \<noteq> CHR ''_'') (rev (x @ CHR ''_'' # str_int k)) = rev (str_int k)"
    for x k
  proof -
    have "takeWhile (\<lambda>c. c \<noteq> CHR ''_'') (rev (str_int k) @ CHR ''_'' # rev x) =
          rev (str_int k) @ takeWhile (\<lambda>c. c \<noteq> CHR ''_'') (CHR ''_'' # rev x)"
      by (rule takeWhile_append2) (use str_int_plain in auto)
    then show ?thesis
      by simp
  qed
  from assms
  have "takeWhile (\<lambda>c. c \<noteq> CHR ''_'') (rev (a @ CHR ''_'' # str_int i)) =
        takeWhile (\<lambda>c. c \<noteq> CHR ''_'') (rev (b @ CHR ''_'' # str_int j))"
    by (rule arg_cong)
  then have "rev (str_int i) = rev (str_int j)"
    unfolding cut .
  then show ?thesis
    by (simp add: str_int_inj)
qed

lemma numbered_rows_distinct: "distinct (map pf_id (numbered_rows mt num rps))"
proof -
  have "\<And>i j. i < length rps \<Longrightarrow> j < length rps \<Longrightarrow> i \<noteq> j \<Longrightarrow>
          pf_id (numbered_rows mt num rps ! i) \<noteq> pf_id (numbered_rows mt num rps ! j)"
  proof
    fix i j
    assume i: "i < length rps" and j: "j < length rps" and ne: "i \<noteq> j"
      and eq: "pf_id (numbered_rows mt num rps ! i) = pf_id (numbered_rows mt num rps ! j)"
    from eq have "num + int i = num + int j"
      by (auto simp: numbered_rows_nth [OF i] numbered_rows_nth [OF j] dest: suffixed_id_inj)
    with ne show False by simp
  qed
  then show ?thesis
    by (simp add: distinct_conv_nth)
qed

subsection \<open>The extraction loop completes\<close>

text \<open>
  A chain whose index is within the list of representative identifiers never ends the
  loop: its exceptions are recorded. So the loop over the rows completes when the
  artifact of every run can be loaded and no run has more file names than representative
  identifiers.
\<close>

lemma chain_step_completes:
  assumes "enum < length (iden_of row)"
  shows "\<exists>acc'. chain_step w p arr row number (enum, f) acc = Inr acc'"
  using assms by (simp add: chain_step_def getitem_def split: sum.splits)

lemma chain_loop_completes:
  assumes "\<forall>ef \<in> set efs. fst ef < length (iden_of row)"
  shows "\<exists>acc'. chain_loop w p arr row number efs acc = Inr acc'"
  using assms
proof (induction efs arbitrary: acc)
  case Nil
  then show ?case by simp
next
  case (Cons ef efs)
  obtain enum f where ef: "ef = (enum, f)"
    by (cases ef)
  with Cons.prems have "enum < length (iden_of row)"
    by simp
  from chain_step_completes [OF this] obtain acc1
    where step: "chain_step w p arr row number (enum, f) acc = Inr acc1"
    by blast
  have "\<exists>acc2. chain_loop w p arr row number efs acc1 = Inr acc2"
    using Cons.prems by (intro Cons.IH) simp
  with step show ?case
    by (simp add: ef)
qed

lemma row_loop_completes:
  assumes "\<forall>nrow \<in> set nrows.
             (\<exists>arr. np_load w (npzpath_of p (snd nrow)) = Inr arr) \<and>
             length (py_split (row_file (snd nrow)) '';;'') \<le> length (iden_of (snd nrow))"
  shows "\<exists>acc'. row_loop w p nrows acc = Inr acc'"
  using assms
proof (induction nrows arbitrary: acc)
  case Nil
  then show ?case by simp
next
  case (Cons nrow nrows)
  from Cons.prems obtain arr where arr: "np_load w (npzpath_of p (snd nrow)) = Inr arr"
    and len: "length (py_split (row_file (snd nrow)) '';;'') \<le> length (iden_of (snd nrow))"
    by auto
  have "\<forall>ef \<in> set (enumerate 0 (py_split (row_file (snd nrow)) '';;'')).
          fst ef < length (iden_of (snd nrow))"
    using len by (auto simp: in_set_enumerate_eq)
  from chain_loop_completes [OF this] obtain acc1
    where "chain_loop w p arr (snd nrow) (fst nrow)
             (enumerate 0 (py_split (row_file (snd nrow)) '';;'')) acc = Inr acc1"
    by blast
  with arr have step: "row_step w p nrow acc = Inr acc1"
    by (simp add: row_step_def Let_def)
  have "\<exists>acc2. row_loop w p nrows acc1 = Inr acc2"
    using Cons.prems by (intro Cons.IH) simp
  with step show ?case
    by simp
qed

subsection \<open>A cluster table of numbers\<close>

text \<open>
  When the cluster table is read with numeric columns, no cell equals the representative
  identifier, which is a string: no member is selected, and with the aligner returning
  the empty scratch file unchanged the chain is recorded as a failure.
\<close>

lemma numeric_cluster_table_selects_nothing:
  "extraction_loop
     ((demo_world [good_row])\<lparr>read_cluster_tsv := (\<lambda>path. Inr [(Number 1, Number 7)])\<rparr>)
     demo_params = Inr ([], [[''R1'']])"
  by code_simp

subsection \<open>The chain-count assertions\<close>

text \<open>
  A row whose number of file names is not the one of its class fails one of the two
  assertions in every chain. Where the handler finds the representative identifier of the
  chain, the failure is recorded and nothing is added to the success accumulator.
\<close>

lemma chain_count_mismatch_raises:
  assumes "length (py_split (row_file row) '';;'') \<noteq> (if row_mhc_type row = 2 then 2 else 1)"
  shows "try_body w p arr row number enum f acc = Inl AssertionError"
  using assms by (simp add: try_body_def Let_def)

lemma chain_count_mismatch_recorded:
  assumes "length (py_split (row_file row) '';;'') \<noteq> (if row_mhc_type row = 2 then 2 else 1)"
    and "\<not> contains ''mice'' f"
    and "enum < length (iden_of row)"
  shows "chain_step w p arr row number (enum, f) acc =
         Inr (fst acc, snd acc @ [[iden_of row ! enum]])"
  using assms(2,3) chain_count_mismatch_raises [OF assms(1), of w p arr number enum f acc]
  by (simp add: chain_step_def getitem_def)

subsection \<open>Counting the positions inside a sequence\<close>

lemma inside_count:
  "length (filter (\<lambda>p. p < n) (np_unique col)) = card {p \<in> set col. p < n}"
proof -
  have "distinct (filter (\<lambda>p. p < n) (np_unique col))"
    by (simp add: np_unique_distinct)
  then have "length (filter (\<lambda>p. p < n) (np_unique col)) =
             card (set (filter (\<lambda>p. p < n) (np_unique col)))"
    by (rule distinct_card [symmetric])
  also have "set (filter (\<lambda>p. p < n) (np_unique col)) = {p \<in> set col. p < n}"
    by auto
  finally show ?thesis .
qed

lemma inside_count_le: "card {p \<in> set col. p < (n::int)} \<le> card (set col)"
  by (rule card_mono) auto

subsection \<open>The loop over the rows, in two parts\<close>

lemma row_loop_append:
  "row_loop w p (xs @ ys) acc = bind (row_loop w p xs acc) (\<lambda>acc'. row_loop w p ys acc')"
proof (induction xs arbitrary: acc)
  case Nil
  then show ?case by simp
next
  case (Cons x xs)
  then show ?case
    by (cases "row_step w p x acc") simp_all
qed

lemma row_loop_load_failure:
  assumes "row_loop w p before acc = Inr acc1"
    and "np_load w (npzpath_of p (snd nrow)) = Inl e"
  shows "row_loop w p (before @ nrow # after) acc = Inl e"
  using assms by (simp add: row_loop_append row_step_def Let_def)

section \<open>The claims of the specification\<close>

text \<open>
  C1. For contact positions that are non-negative (the data model's invariant for a
  contact-position set) and a file name whose species can be parsed, the loop over the
  aligned records of a chain never raises. The positions are the sorted distinct values
  of the stored column. For every sequence \<open>s\<close> the expression of line 395 gives the
  residues of \<open>s\<close> at the positions strictly below the length of \<open>s\<close>, in ascending
  order; positions at or beyond the length are skipped. The loop yields one row for every
  record with a non-empty sequence and a position below its length, in the order of the
  records, and the pseudo-sequence of the row is that string of residues: its length is
  the number of distinct positions below the length of the aligned sequence, hence at
  most the size of the position set.
\<close>

theorem pseudo_sequence_contact_positions:
  assumes "\<forall>p \<in> set col. 0 \<le> p" and "species_of f = Inr sp"
  shows "sorted (np_unique col) \<and> distinct (np_unique col) \<and> set (np_unique col) = set col \<and>
    (\<exists>t. filtered_seq s (np_unique col) = Inr t \<and>
       t = map (\<lambda>p. s ! nat p) (filter (\<lambda>p. p < int (length s)) (np_unique col)) \<and>
       length t = card {p \<in> set col. p < int (length s)} \<and>
       length t \<le> card (set col)) \<and>
    (\<exists>rows. record_loop f rep t (np_unique col) aligned = Inr rows \<and>
       map (\<lambda>row. (mhc_id row, sequence row, pseudo_sequence row)) rows =
         map (\<lambda>r. (rec_id r, rec_seq r,
                    map (\<lambda>p. rec_seq r ! nat p)
                      (filter (\<lambda>p. p < int (length (rec_seq r))) (np_unique col))))
           (filter (\<lambda>r. rec_seq r \<noteq> [] \<and> (\<exists>p \<in> set col. p < int (length (rec_seq r))))
              aligned) \<and>
       (\<forall>row \<in> set rows.
          length (pseudo_sequence row) = card {p \<in> set col. p < int (length (sequence row))} \<and>
          0 < length (pseudo_sequence row) \<and>
          length (pseudo_sequence row) \<le> card (set col)))"
proof -
  let ?ps = "np_unique col"
  have nonneg: "\<forall>p \<in> set ?ps. 0 \<le> p"
    using assms(1) by simp
  have one: "filtered_seq s ?ps =
      Inr (map (\<lambda>p. s ! nat p) (filter (\<lambda>p. p < int (length s)) ?ps))"
    by (rule filtered_seq_nonneg [OF nonneg])
  let ?keep = "filter (\<lambda>r. rec_seq r \<noteq> [] \<and> (\<exists>p \<in> set col. p < int (length (rec_seq r)))) aligned"
  let ?row = "\<lambda>r. \<lparr>mhc_id = rec_id r, species = sp, mhc_types = t,
                    pseudo_sequence = map (\<lambda>p. rec_seq r ! nat p)
                                        (filter (\<lambda>p. p < int (length (rec_seq r))) ?ps),
                    representative_id = rep, sequence = rec_seq r,
                    repres_pseudo_positions = py_join '';'' (map str_int ?ps)\<rparr>"
  have loop: "record_loop f rep t ?ps aligned = Inr (map ?row ?keep)"
    using record_loop_rows [OF nonneg assms(2), of rep t aligned] by simp
  have fields: "map (\<lambda>row. (mhc_id row, sequence row, pseudo_sequence row)) (map ?row ?keep) =
      map (\<lambda>r. (rec_id r, rec_seq r,
                 map (\<lambda>p. rec_seq r ! nat p)
                   (filter (\<lambda>p. p < int (length (rec_seq r))) ?ps))) ?keep"
    by simp
  have lengths: "\<forall>row \<in> set (map ?row ?keep).
      length (pseudo_sequence row) = card {p \<in> set col. p < int (length (sequence row))} \<and>
      0 < length (pseudo_sequence row) \<and>
      length (pseudo_sequence row) \<le> card (set col)"
  proof
    fix row
    assume "row \<in> set (map ?row ?keep)"
    then obtain r where r: "r \<in> set ?keep" and row: "row = ?row r"
      by auto
    from r obtain q where q: "q \<in> set col" "q < int (length (rec_seq r))"
      by auto
    have len: "length (pseudo_sequence row) = card {p \<in> set col. p < int (length (rec_seq r))}"
      by (simp add: row inside_count)
    have "q \<in> {p \<in> set col. p < int (length (rec_seq r))}"
      using q by simp
    then have "0 < card {p \<in> set col. p < int (length (rec_seq r))}"
      by (auto simp: card_gt_0_iff)
    with len inside_count_le [of col "int (length (rec_seq r))"]
    show "length (pseudo_sequence row) = card {p \<in> set col. p < int (length (sequence row))} \<and>
      0 < length (pseudo_sequence row) \<and>
      length (pseudo_sequence row) \<le> card (set col)"
      by (simp add: row)
  qed
  from one loop fields lengths show ?thesis
    by (simp add: np_unique_sorted np_unique_distinct inside_count inside_count_le
          del: set_map map_map)
qed

theorem pseudo_sequence_contact_positions_witness:
  "np_unique [7, 3, 1, 3] = [1, 3, 7] \<and>
   filtered_seq ''ACDEF'' (np_unique [7, 3, 1, 3]) = Inr ''CE'' \<and>
   record_loop ''A-homo_clust_all_seqs.fasta'' ''R1'' 1 (np_unique [7, 3, 1, 3]) demo_aligned =
     Inr [\<lparr>mhc_id = ''m1'', species = ''homo'', mhc_types = 1, pseudo_sequence = ''CE'',
            representative_id = ''R1'', sequence = ''ACDE'', repres_pseudo_positions = ''1;3;7''\<rparr>,
          \<lparr>mhc_id = ''m2'', species = ''homo'', mhc_types = 1, pseudo_sequence = ''CF'',
            representative_id = ''R1'', sequence = ''ACDF'', repres_pseudo_positions = ''1;3;7''\<rparr>]"
proof -
  have h1: "\<forall>p \<in> set [7, 3, 1, 3 :: int]. 0 \<le> p"
    by simp
  have h2: "species_of ''A-homo_clust_all_seqs.fasta'' = Inr ''homo''"
    by code_simp
  have u: "np_unique [7, 3, 1, 3] = [1, 3, 7]"
    by (simp add: np_unique_def)
  have loop: "record_loop ''A-homo_clust_all_seqs.fasta'' ''R1'' 1 [1, 3, 7] demo_aligned =
     Inr [\<lparr>mhc_id = ''m1'', species = ''homo'', mhc_types = 1, pseudo_sequence = ''CE'',
            representative_id = ''R1'', sequence = ''ACDE'', repres_pseudo_positions = ''1;3;7''\<rparr>,
          \<lparr>mhc_id = ''m2'', species = ''homo'', mhc_types = 1, pseudo_sequence = ''CF'',
            representative_id = ''R1'', sequence = ''ACDF'', repres_pseudo_positions = ''1;3;7''\<rparr>]"
    by code_simp
  from pseudo_sequence_contact_positions [OF h1 h2, of "''ACDEF''" "''R1''" 1 demo_aligned] loop
  show ?thesis
    by (simp add: u)
qed

text \<open>
  C10. When the extraction loop ends with no success table accumulated, whatever the
  failure rows are, the concatenation of the empty success accumulator raises: no table is
  written and the function does not return.
\<close>

theorem no_success_rows_abort:
  assumes "extraction_loop w p = Inr ([], failed)"
  shows "match_pseudoseq w p = ([], Inl ValueError)"
  using assms by (simp add: match_pseudoseq_def post_loop_def pd_concat_def)

theorem no_success_rows_abort_witness:
  "extraction_loop (demo_world [one_file_row]) demo_params = Inr ([], [[''R9'']]) \<and>
   match_pseudoseq (demo_world [one_file_row]) demo_params = ([], Inl ValueError)"
proof -
  have h: "extraction_loop (demo_world [one_file_row]) demo_params = Inr ([], [[''R9'']])"
    by code_simp
  from no_success_rows_abort [OF h] h show ?thesis
    by simp
qed

text \<open>
  C5. The failing input: a run that succeeds, followed twice by the class 2 run with a
  single file name, which fails the chain-count assertion and is recorded under \<open>R9\<close>
  both times. The table written as \<^verbatim>\<open>FAILED_noduplicate.tsv\<close> is the failure table
  itself, with both rows of \<open>R9\<close>: the result of \<^verbatim>\<open>drop_duplicates\<close> is dropped, where
  the success table is assigned its deduplicated variant.
\<close>

theorem failed_noduplicate_keeps_duplicates:
  "map_of (fst (match_pseudoseq (demo_world [good_row, one_file_row, one_file_row]) demo_params))
     ''FAILED_noduplicate.tsv'' = Some (Failed_table [''R9'', ''R9''])"
  by code_simp

text \<open>
  C4. The failing input: the class 1 run with two file names and one representative
  identifier, followed by a well-formed run. The first chain fails the assertion on the
  number of file names and is recorded under \<open>R1\<close>. For the second chain the handler
  evaluates \<^verbatim>\<open>iden[1]\<close> on a list of one identifier: the \<^verbatim>\<open>IndexError\<close> leaves the
  handler, no failure row is recorded for that chain, the next run is never processed and
  no table is written.
\<close>

theorem chain_count_handler_raises:
  "chain_step (demo_world [two_files_row, good_row]) demo_params demo_npz two_files_row 0
     (0, ''A-homo_clust_all_seqs.fasta'') ([], []) = Inr ([], [[''R1'']]) \<and>
   chain_step (demo_world [two_files_row, good_row]) demo_params demo_npz two_files_row 0
     (1, ''B-homo_clust_all_seqs.fasta'') ([], [[''R1'']]) = Inl IndexError \<and>
   match_pseudoseq (demo_world [two_files_row, good_row]) demo_params = ([], Inl IndexError)"
  by code_simp

text \<open>
  C2, as stated, fails: the artifact of a run is loaded before the loop over its chains,
  outside the \<^verbatim>\<open>try\<close> block. With the artifact of the first run missing, the whole
  batch ends in the error of \<^verbatim>\<open>np.load\<close>: nothing is recorded, the second run is not
  processed, nothing is written.
\<close>

theorem missing_artifact_aborts_counterexample:
  "match_pseudoseq (demo_world [lost_row, good_row]) demo_params = ([], Inl OSError)"
  by code_simp

text \<open>
  C2, amended. For a chain whose file name does not hold \<open>mice\<close> and whose index is
  within the list of representative identifiers, every exception raised inside the
  \<^verbatim>\<open>try\<close> block (the chain-count assertions, the cluster table, the extraction, the
  aligner, the access to the stored array, the slicing, the species) is caught: one
  failure row with the chain's representative identifier is appended, the success
  accumulator is unchanged, and the loop goes on with the remaining chains. The artifact
  of a run is loaded before its chains, outside the \<^verbatim>\<open>try\<close> block: when the run table
  was read, the scratch directory created and the rows before a run processed, an
  exception of \<^verbatim>\<open>np.load\<close> for that run ends the whole function in that exception,
  whatever was accumulated before and whatever rows follow, and nothing is written.
\<close>

theorem guarded_exception_recorded:
  "(\<not> contains ''mice'' f \<and> try_body w p arr row number enum f acc = Inl e \<and>
    enum < length (iden_of row) \<longrightarrow>
      chain_loop w p arr row number ((enum, f) # rest) acc =
      chain_loop w p arr row number rest (fst acc, snd acc @ [[iden_of row ! enum]])) \<and>
   (read_clip w (clip_dataframe p) = Inr rows \<and> makedirs w (tmp_dir p) = Inr () \<and>
    indexed_rows (continue_from_index p) rows = before @ nrow # after \<and>
    row_loop w p before ([], []) = Inr acc1 \<and>
    np_load w (npzpath_of p (snd nrow)) = Inl e' \<longrightarrow>
      match_pseudoseq w p = ([], Inl e'))"
proof (intro conjI impI)
  assume "\<not> contains ''mice'' f \<and> try_body w p arr row number enum f acc = Inl e \<and>
    enum < length (iden_of row)"
  then show "chain_loop w p arr row number ((enum, f) # rest) acc =
      chain_loop w p arr row number rest (fst acc, snd acc @ [[iden_of row ! enum]])"
    by (simp add: chain_step_def getitem_def)
next
  assume h: "read_clip w (clip_dataframe p) = Inr rows \<and> makedirs w (tmp_dir p) = Inr () \<and>
    indexed_rows (continue_from_index p) rows = before @ nrow # after \<and>
    row_loop w p before ([], []) = Inr acc1 \<and>
    np_load w (npzpath_of p (snd nrow)) = Inl e'"
  then have "row_loop w p (before @ nrow # after) ([], []) = Inl e'"
    by (intro row_loop_load_failure [of w p before "([], [])" acc1]) simp_all
  with h have "extraction_loop w p = Inl e'"
    by (simp add: extraction_loop_def Let_def)
  then show "match_pseudoseq w p = ([], Inl e')"
    by (simp add: match_pseudoseq_def)
qed

theorem guarded_exception_recorded_witness:
  "try_body (demo_world [two_files_two_idens_row]) demo_params demo_npz two_files_two_idens_row 0 0
     ''A-homo_clust_all_seqs.fasta'' ([], []) = Inl AssertionError \<and>
   chain_loop (demo_world [two_files_two_idens_row]) demo_params demo_npz two_files_two_idens_row 0
     [(0, ''A-homo_clust_all_seqs.fasta''), (1, ''B-homo_clust_all_seqs.fasta'')] ([], []) =
     Inr ([], [[''R1''], [''R2'']]) \<and>
   np_load (demo_world lost_batch) (npzpath_of demo_params lost_row) = Inl OSError \<and>
   match_pseudoseq (demo_world lost_batch) demo_params = ([], Inl OSError)"
proof -
  let ?w = "demo_world [two_files_two_idens_row]"
  let ?row = "two_files_two_idens_row"
  have h1: "\<not> contains ''mice'' ''A-homo_clust_all_seqs.fasta''"
    by code_simp
  have h2: "try_body ?w demo_params demo_npz ?row 0 0 ''A-homo_clust_all_seqs.fasta'' ([], []) =
      Inl AssertionError"
    by code_simp
  have h3: "0 < length (iden_of ?row)"
    by code_simp
  have v: "iden_of ?row ! 0 = ''R1''"
    by code_simp
  have rest: "chain_loop ?w demo_params demo_npz ?row 0 [(1, ''B-homo_clust_all_seqs.fasta'')]
      ([], [[''R1'']]) = Inr ([], [[''R1''], [''R2'']])"
    by code_simp
  have prem: "\<not> contains ''mice'' ''A-homo_clust_all_seqs.fasta'' \<and>
      try_body ?w demo_params demo_npz ?row 0 0 ''A-homo_clust_all_seqs.fasta'' ([], []) =
        Inl AssertionError \<and>
      0 < length (iden_of ?row)"
    using h1 h2 h3 by (intro conjI)
  from mp [OF guarded_exception_recorded [THEN conjunct1] prem,
      of "[(1, ''B-homo_clust_all_seqs.fasta'')]"]
  have "chain_loop ?w demo_params demo_npz ?row 0
      ((0, ''A-homo_clust_all_seqs.fasta'') # [(1, ''B-homo_clust_all_seqs.fasta'')]) ([], []) =
    chain_loop ?w demo_params demo_npz ?row 0 [(1, ''B-homo_clust_all_seqs.fasta'')]
      ([], [[''R1'']])"
    by (simp only: fst_conv snd_conv append_Nil v)
  then have chains: "chain_loop ?w demo_params demo_npz ?row 0
      [(0, ''A-homo_clust_all_seqs.fasta''), (1, ''B-homo_clust_all_seqs.fasta'')] ([], []) =
      Inr ([], [[''R1''], [''R2'']])"
    by (rule trans [OF _ rest])
  let ?b = "demo_world lost_batch"
  have g1: "read_clip ?b (clip_dataframe demo_params) = Inr lost_batch"
    by (simp add: demo_world_def)
  have g2: "makedirs ?b (tmp_dir demo_params) = Inr ()"
    by (simp add: demo_world_def)
  have g3: "indexed_rows (continue_from_index demo_params) lost_batch =
      [(0, good_row)] @ (1, lost_row) # [(2, good_row)]"
    by code_simp
  have g4': "row_loop ?b demo_params [(0, good_row)] ([], []) =
      Inr ([[\<lparr>mhc_id = ''m1'', species = ''homo'', mhc_types = 1, pseudo_sequence = ''CE'',
                representative_id = ''R1'', sequence = ''ACDE'',
                repres_pseudo_positions = ''1;3''\<rparr>,
              \<lparr>mhc_id = ''m2'', species = ''homo'', mhc_types = 1, pseudo_sequence = ''CF'',
                representative_id = ''R1'', sequence = ''ACDF'',
                repres_pseudo_positions = ''1;3''\<rparr>]], [])"
    by code_simp
  have g5: "np_load ?b (npzpath_of demo_params lost_row) = Inl OSError"
    by code_simp
  have "match_pseudoseq ?b demo_params = ([], Inl OSError)"
    using guarded_exception_recorded
      [where w = "?b" and p = demo_params and rows = lost_batch and before = "[(0, good_row)]"
         and nrow = "(1, lost_row)" and after = "[(2, good_row)]" and e' = OSError,
       THEN conjunct2]
      g1 g2 g3 g4' g5
    by simp
  with h2 chains g5 show ?thesis
    by simp
qed

text \<open>
  C3. The failing input: a reference of length 100, a query with 57 non-gap positions
  (coverage exactly 57 percent) and the threshold 57. The code computes
  \<^verbatim>\<open>(57 / 100) * 100\<close> in floats: the quotient is rounded to \<open>5134103575202365 \<sqdot> 2\<^sup>-\<^sup>5\<^sup>3\<close>
  and the product to \<open>8022036836253695 \<sqdot> 2\<^sup>-\<^sup>4\<^sup>7\<close>, that is 56.99999999999999, below 57:
  the query is excluded and only the reference is written.
\<close>

theorem coverage_rounding_excludes:
  "length (filter (\<lambda>res. res \<noteq> CHR ''-'') (rec_seq cov_query)) = 57 \<and>
   length (rec_seq cov_reference) = 100 \<and>
   compute_coverage 100 (rec_seq cov_query) = Inr (8022036836253695, - 47) \<and>
   \<not> float_ge_int (8022036836253695, - 47) 57 \<and>
   filter_mafft_alignment (Inr [cov_reference, cov_query]) (Inr [cov_reference]) 57 =
     Inr ([cov_reference], 2, 1)"
  by code_simp

text \<open>
  C7. The failing input: a reference whose sequence holds the placeholder \<open>X\<close>, and one
  query above the threshold. The query is written without its gap; the reference record,
  appended by the branch that keeps it unconditionally, is written with its \<open>X\<close>.
\<close>

theorem reference_written_unstripped:
  "filter_mafft_alignment (Inr [gap_reference, gap_query]) (Inr [gap_reference]) 50 =
     Inr ([\<lparr>rec_id = ''ref'', rec_description = ''ref'', rec_seq = ''ACXC''\<rparr>,
           \<lparr>rec_id = ''q1'', rec_description = ''q1'', rec_seq = ''ACC''\<rparr>], 2, 2)"
  by code_simp

text \<open>
  C6, as stated, fails: the failure row is appended once for the chain, after the loop
  over its records, not once for every record with an empty pseudo-sequence. For the two
  aligned members of cluster \<open>R1\<close> and the single contact position 9, beyond their length
  4, both records have an empty pseudo-sequence: the code appends one failure row, the
  specification's reading two.
\<close>

theorem failure_row_per_chain_counterexample:
  "filtered_seq ''ACDE'' [9] = Inr [] \<and> filtered_seq ''ACDF'' [9] = Inr [] \<and>
   extract_chain ''DRB-homo_clust_all_seqs.fasta'' ''R1'' 2 [9] demo_aligned ([], []) =
     Inr ([], [[''R1'']]) \<and>
   spec_record_rows ''DRB-homo_clust_all_seqs.fasta'' ''R1'' 2 [9] demo_aligned =
     Inr ([], [''R1'', ''R1''])"
  by code_simp

text \<open>
  C6, amended. For non-negative contact positions and a file name that follows the
  convention (its species can be parsed), the chain never raises. An aligned record with a
  non-empty sequence gives a success row (identifier, species of the file name, declared
  class, pseudo-sequence, representative identifier, full aligned sequence, contact
  positions joined by semicolons) exactly when one of the positions is below its length;
  a record with an empty pseudo-sequence gives no row. After the loop the rows collected
  are appended as one table to the success accumulator; when there is none, and only
  then, one failure row with the representative identifier is appended.
\<close>

theorem chain_success_rows_or_one_failure:
  assumes "\<forall>p \<in> set ps. 0 \<le> p" and "species_of f = Inr sp"
  shows "extract_chain f rep t ps aligned acc =
    (let rows =
       map (\<lambda>r. \<lparr>mhc_id = rec_id r, species = sp, mhc_types = t,
                  pseudo_sequence = map (\<lambda>p. rec_seq r ! nat p)
                                      (filter (\<lambda>p. p < int (length (rec_seq r))) ps),
                  representative_id = rep, sequence = rec_seq r,
                  repres_pseudo_positions = py_join '';'' (map str_int ps)\<rparr>)
         (filter (\<lambda>r. rec_seq r \<noteq> [] \<and> (\<exists>p \<in> set ps. p < int (length (rec_seq r)))) aligned)
     in if rows = [] then Inr (fst acc, snd acc @ [[rep]])
        else Inr (fst acc @ [rows], snd acc))"
  unfolding extract_chain_def record_loop_rows [OF assms]
  by (simp add: Let_def)

theorem chain_success_rows_or_one_failure_witness:
  "species_of ''A-homo_clust_all_seqs.fasta'' = Inr ''homo'' \<and>
   extract_chain ''A-homo_clust_all_seqs.fasta'' ''R1'' 1 [1, 3] demo_aligned ([], []) =
     Inr ([[\<lparr>mhc_id = ''m1'', species = ''homo'', mhc_types = 1, pseudo_sequence = ''CE'',
              representative_id = ''R1'', sequence = ''ACDE'', repres_pseudo_positions = ''1;3''\<rparr>,
            \<lparr>mhc_id = ''m2'', species = ''homo'', mhc_types = 1, pseudo_sequence = ''CF'',
              representative_id = ''R1'', sequence = ''ACDF'', repres_pseudo_positions = ''1;3''\<rparr>]],
          [])"
proof -
  have h1: "\<forall>p \<in> set [1, 3 :: int]. 0 \<le> p"
    by simp
  have h2: "species_of ''A-homo_clust_all_seqs.fasta'' = Inr ''homo''"
    by code_simp
  have m: "demo_aligned =
      [\<lparr>rec_id = ''m1'', rec_description = ''m1 A*01'', rec_seq = ''ACDE''\<rparr>,
       \<lparr>rec_id = ''m2'', rec_description = ''m2 A*02'', rec_seq = ''ACDF''\<rparr>]"
    by (simp add: demo_aligned_def demo_members_def)
  have j: "str_int 1 = ''1''" "str_int 3 = ''3''"
    by code_simp+
  from chain_success_rows_or_one_failure [OF h1 h2, of "''R1''" 1 demo_aligned "([], [])"] h1 h2
  show ?thesis
    by (simp add: m j)
qed


text \<open>
  C9, as stated, fails: the number of beta files is asserted only after an alpha file was
  found. In a directory with two files of the beta gene \<open>DMB\<close> of \<open>homo\<close> and no file
  of the alpha gene \<open>DMA\<close>, the entry is skipped (\<^verbatim>\<open>if len(alpha) == 0: continue\<close>):
  no assertion fails and the loop completes, writing no file.
\<close>

theorem beta_unchecked_without_alpha_counterexample:
  "matching (representative_files ''clusters'' beta_only_names ''_rep'') ''DMA'' ''homo'' = [] \<and>
   matching (representative_files ''clusters'' beta_only_names ''_rep'') ''DMB'' ''homo'' =
     [''clusters/DMB-homo_a_rep_seq.fasta'', ''clusters/DMB-homo_b_rep_seq.fasta''] \<and>
   mhc2_cluster_combination_seqs (demo_fs beta_only_names) ''clusters'' ''out/'' ''_rep'' = Inr []"
  by code_simp

text \<open>
  C9, amended. Provided the directory can be listed, the output directory can be
  created, the listed files can be parsed and the output files can be opened, the run
  ends in an assertion failure exactly when, for some species and some entry (alpha gene,
  beta genes) of its table, more than one alpha file matches, or exactly one alpha file
  matches and some beta gene of the entry has a number of matching files other than one.
  An entry with no alpha file is skipped, whatever its beta files. The assertion failure
  is not caught: it is the result of the run; without a violation the loop completes.
\<close>

theorem pairing_assertion_failures:
  assumes "fs_listdir fs path = Inr names"
    and "fs_makedirs fs (rstrip_slash out_dir) = Inr ()"
    and "\<forall>f \<in> set (representative_files path names iden). \<exists>rs. fs_parse fs f = Inr rs"
    and "\<forall>out. fs_open_w fs out = Inr ()"
  shows "(mhc2_cluster_combination_seqs fs path out_dir iden = Inl AssertionError
          \<longleftrightarrow> (\<exists>sp \<in> set SPECIES. \<exists>kv \<in> set (DICT sp).
                 1 < length (matching (representative_files path names iden) (fst kv) sp) \<or>
                 (length (matching (representative_files path names iden) (fst kv) sp) = 1 \<and>
                  (\<exists>val \<in> set (py_split (snd kv) ''-'').
                     length (matching (representative_files path names iden) val sp) \<noteq> 1)))) \<and>
         (mhc2_cluster_combination_seqs fs path out_dir iden = Inl AssertionError \<or>
          (\<exists>written. mhc2_cluster_combination_seqs fs path out_dir iden = Inr written))"
  using species_loop_result [OF assms(3,4), of "rstrip_slash out_dir" SPECIES] assms(1,2)
  unfolding pairing_violation_def mhc2_cluster_combination_seqs_def
  by (auto simp: Let_def)

theorem pairing_assertion_failures_witness:
  "matching (representative_files ''clusters'' alpha_only_names ''_rep'') ''DMA'' ''homo'' =
     [''clusters/DMA-homo_clust_rep_seq.fasta''] \<and>
   matching (representative_files ''clusters'' alpha_only_names ''_rep'') ''DMB'' ''homo'' = [] \<and>
   mhc2_cluster_combination_seqs (demo_fs alpha_only_names) ''clusters'' ''out/'' ''_rep'' =
     Inl AssertionError"
proof -
  let ?files = "representative_files ''clusters'' alpha_only_names ''_rep''"
  let ?fs = "demo_fs alpha_only_names"
  have h1: "fs_listdir ?fs ''clusters'' = Inr alpha_only_names"
    by (simp add: demo_fs_def)
  have h2: "fs_makedirs ?fs (rstrip_slash ''out/'') = Inr ()"
    by (simp add: demo_fs_def rstrip_slash_def)
  have h3: "\<forall>f \<in> set ?files. \<exists>rs. fs_parse ?fs f = Inr rs"
    by (simp add: demo_fs_def demo_parse_def)
  have h4: "\<forall>out. fs_open_w ?fs out = Inr ()"
    by (simp add: demo_fs_def)
  have a: "matching ?files ''DMA'' ''homo'' = [''clusters/DMA-homo_clust_rep_seq.fasta'']"
    by code_simp
  have b: "matching ?files ''DMB'' ''homo'' = []"
    by code_simp
  have sp: "''homo'' \<in> set SPECIES"
    by (simp add: SPECIES_def)
  have kv: "(''DMA'', ''DMB'') \<in> set (DICT ''homo'')"
    by (simp add: DICT_def)
  have val: "''DMB'' \<in> set (py_split ''DMB'' ''-'')"
    by code_simp
  have "\<exists>sp \<in> set SPECIES. \<exists>kv \<in> set (DICT sp).
          1 < length (matching ?files (fst kv) sp) \<or>
          (length (matching ?files (fst kv) sp) = 1 \<and>
           (\<exists>val \<in> set (py_split (snd kv) ''-''). length (matching ?files val sp) \<noteq> 1))"
    using sp kv val a b by force
  with pairing_assertion_failures [OF h1 h2 h3 h4] a b show ?thesis
    by simp
qed

text \<open>
  C8, as stated, fails: the loop has a test of its own, on \<^verbatim>\<open>_rep\<close> and \<^verbatim>\<open>.fasta\<close>
  in the path, whatever marker the caller gave. The paired file \<open>DMA_DMB-homo.fasta\<close>
  matches the marker \<open>_D\<close> and holds three records, but in a directory named
  \<open>pairs\<close> its path has no \<^verbatim>\<open>_rep\<close>: no row is emitted for it, and the concatenation of
  the empty list of rows raises.
\<close>

theorem marker_match_not_enough_counterexample:
  "contains ''_D'' ''DMA_DMB-homo.fasta'' \<and>
   demo_parse ''pairs/DMA_DMB-homo.fasta'' = Inr demo_members \<and>
   length demo_members = 3 \<and>
   create_parsefold_input_from_representatives (Inr [''DMA_DMB-homo.fasta'']) demo_isdir
     demo_parse ''pairs'' [] 2 ''_D'' 0 None = Inl ValueError"
  by code_simp

text \<open>
  C8, amended. The files that count are those of the directory that are no
  sub-directories, whose name holds \<^verbatim>\<open>.fasta\<close> or \<^verbatim>\<open>.fa\<close> and the caller's marker and
  not the caller's exclusion marker, and whose path holds both \<^verbatim>\<open>_rep\<close> and
  \<^verbatim>\<open>.fasta\<close>. For a declared class 1 or 2, for every such file, every record of it and
  every configured peptide (by default one peptide of 9 residues for class 1, one of 14
  for class 2), in this order, exactly one row (peptide, receptor sequence, receptor type,
  no anchors, identifier) is emitted; the identifier of the row of index \<open>i\<close> is the
  identifier of the record, an underscore and the numeral of the counter plus \<open>i\<close>, so
  that the identifiers are pairwise distinct. With no row at all the function raises.
\<close>

theorem parsefold_rows_numbered:
  assumes "mt = 1 \<or> mt = 2"
    and "\<forall>path \<in> set (selected_paths names isdir fasta_dir iden no_iden).
           parse path = Inr (data path)"
  shows "default_peptides [] 1 = [''MRMATPLLM''] \<and>
    default_peptides [] 2 = [''MRMATPLLMQALPM''] \<and>
    (let pairs = concat (map (\<lambda>path. List.product (data path) (default_peptides peptides mt))
                           (selected_paths names isdir fasta_dir iden no_iden));
         rows = numbered_rows mt num pairs
     in create_parsefold_input_from_representatives (Inr names) isdir parse fasta_dir peptides
          mt iden num no_iden = (if pairs = [] then Inl ValueError else Inr rows) \<and>
        length rows = length pairs \<and>
        (\<forall>i < length pairs. rows ! i =
           \<lparr>pf_peptide = snd (pairs ! i), pf_mhc_seq = rec_seq (fst (pairs ! i)),
            pf_mhc_type = mt, pf_anchors = None,
            pf_id = rec_id (fst (pairs ! i)) @ ''_'' @ str_int (num + int i)\<rparr>) \<and>
        distinct (map pf_id rows))"
proof -
  let ?paths = "map (\<lambda>i. os_path_join fasta_dir [i]) (list_of_dir names isdir fasta_dir iden no_iden)"
  let ?peps = "default_peptides peptides mt"
  let ?pairs = "concat (map (\<lambda>path. List.product (data path) ?peps)
                  (selected_paths names isdir fasta_dir iden no_iden))"
  have ok: "\<forall>path \<in> set ?paths.
      contains ''_rep'' path \<and> contains ''.fasta'' path \<longrightarrow> parse path = Inr (data path)"
    using assms(2) by (simp add: selected_paths_def)
  have loop: "file_loop parse mt ?peps ?paths num =
      Inr (map (\<lambda>row. [row]) (numbered_rows mt num ?pairs), num + int (length ?pairs))"
    unfolding file_loop_rows [OF ok] selected_paths_def ..
  have frames: "pd_concat (map (\<lambda>row. [row]) (numbered_rows mt num ?pairs)) =
      (if ?pairs = [] then Inl ValueError else Inr (numbered_rows mt num ?pairs))"
  proof -
    have "concat (map (\<lambda>row. [row]) xs) = xs" for xs :: "parsefold_row list"
      by (induction xs) simp_all
    moreover have "numbered_rows mt num ?pairs = [] \<longleftrightarrow> ?pairs = []"
      by (metis length_0_conv length_numbered_rows)
    ultimately show ?thesis
      by (simp add: pd_concat_def)
  qed
  have run: "create_parsefold_input_from_representatives (Inr names) isdir parse fasta_dir peptides
          mt iden num no_iden = (if ?pairs = [] then Inl ValueError else Inr (numbered_rows mt num ?pairs))"
    using assms(1) unfolding create_parsefold_input_from_representatives_def
    by (auto simp: Let_def loop frames)
  have peps: "default_peptides [] 1 = [''MRMATPLLM''] \<and> default_peptides [] 2 = [''MRMATPLLMQALPM'']"
    by (simp add: default_peptides_def)
  from run peps show ?thesis
    by (simp add: Let_def numbered_rows_nth numbered_rows_distinct)
qed

theorem parsefold_rows_numbered_witness:
  "selected_paths [''A-homo_clust_rep_seq.fasta''] demo_isdir ''clusters'' ''_rep'' None =
     [''clusters/A-homo_clust_rep_seq.fasta''] \<and>
   create_parsefold_input_from_representatives (Inr [''A-homo_clust_rep_seq.fasta'']) demo_isdir
     demo_parse ''clusters'' [] 1 ''_rep'' 5 None =
     Inr [\<lparr>pf_peptide = ''MRMATPLLM'', pf_mhc_seq = ''ACDE'', pf_mhc_type = 1,
            pf_anchors = None, pf_id = ''m1_5''\<rparr>,
          \<lparr>pf_peptide = ''MRMATPLLM'', pf_mhc_seq = ''ACDF'', pf_mhc_type = 1,
            pf_anchors = None, pf_id = ''m2_6''\<rparr>,
          \<lparr>pf_peptide = ''MRMATPLLM'', pf_mhc_seq = ''GGGG'', pf_mhc_type = 1,
            pf_anchors = None, pf_id = ''m3_7''\<rparr>]"
proof -
  let ?names = "[''A-homo_clust_rep_seq.fasta'']"
  have h1: "(1::int) = 1 \<or> (1::int) = 2"
    by simp
  have h2: "\<forall>path \<in> set (selected_paths ?names demo_isdir ''clusters'' ''_rep'' None).
              demo_parse path = Inr (demo_members)"
    by (simp add: demo_parse_def)
  have sel: "selected_paths ?names demo_isdir ''clusters'' ''_rep'' None =
      [''clusters/A-homo_clust_rep_seq.fasta'']"
    by code_simp
  have rows: "numbered_rows 1 5 (List.product demo_members [''MRMATPLLM'']) =
      [\<lparr>pf_peptide = ''MRMATPLLM'', pf_mhc_seq = ''ACDE'', pf_mhc_type = 1,
         pf_anchors = None, pf_id = ''m1_5''\<rparr>,
       \<lparr>pf_peptide = ''MRMATPLLM'', pf_mhc_seq = ''ACDF'', pf_mhc_type = 1,
         pf_anchors = None, pf_id = ''m2_6''\<rparr>,
       \<lparr>pf_peptide = ''MRMATPLLM'', pf_mhc_seq = ''GGGG'', pf_mhc_type = 1,
         pf_anchors = None, pf_id = ''m3_7''\<rparr>]"
    by code_simp
  have ne: "List.product demo_members [''MRMATPLLM''] \<noteq> []"
    by (simp add: demo_members_def)
  from parsefold_rows_numbered [OF h1 h2, of "[]" 5]
  have "create_parsefold_input_from_representatives (Inr ?names) demo_isdir
     demo_parse ''clusters'' [] 1 ''_rep'' 5 None =
       Inr (numbered_rows 1 5 (List.product demo_members [''MRMATPLLM'']))"
    using ne by (simp add: Let_def sel default_peptides_def del: length_product)
  with sel rows show ?thesis
    by simp
qed

end
